theory Spec2Isabelle
  imports Complex_Main "HOL-Library.Sublist"
begin

section \<open>Dates and times\<close>

text \<open>
  A naive \<^verbatim>\<open>datetime\<close> is the number of minutes since 0001-01-01 00:00, the day Python's
  proleptic calendar starts with (a Monday). Every datetime of the scheduler is a whole
  minute: slots are printed and parsed with \<^verbatim>\<open>%Y-%m-%d %H:%M\<close>, and \<^verbatim>\<open>find_free_slots\<close>
  clears seconds and microseconds. A \<^verbatim>\<open>timedelta\<close> is a number of minutes, a \<^verbatim>\<open>time\<close> the
  number of minutes since midnight. The limits of Python's datetime range (years 1 to
  9999) are not part of the model.
\<close>

type_synonym datetime = int
type_synonym time_of_day = int

definition datetime_of :: "int \<Rightarrow> int \<Rightarrow> int \<Rightarrow> datetime" where
  "datetime_of day_number h m = day_number * 1440 + h * 60 + m"

definition time_of :: "int \<Rightarrow> int \<Rightarrow> time_of_day" where
  "time_of h m = h * 60 + m"

definition timedelta_minutes :: "int \<Rightarrow> int" where
  "timedelta_minutes n = n"

definition timedelta_days :: "int \<Rightarrow> int" where
  "timedelta_days n = n * 1440"

text \<open>\<^verbatim>\<open>dt.weekday()\<close>: Monday is 0, Sunday is 6.\<close>

definition weekday :: "datetime \<Rightarrow> int" where
  "weekday dt = (dt div 1440) mod 7"

text \<open>\<^verbatim>\<open>dt.time()\<close>, \<^verbatim>\<open>dt.hour\<close> and \<^verbatim>\<open>dt.replace(hour=0, minute=0, second=0, microsecond=0)\<close>.\<close>

definition time_part :: "datetime \<Rightarrow> time_of_day" where
  "time_part dt = dt mod 1440"

definition hour :: "datetime \<Rightarrow> int" where
  "hour dt = (dt mod 1440) div 60"

definition midnight :: "datetime \<Rightarrow> datetime" where
  "midnight dt = (dt div 1440) * 1440"

section \<open>Calendars\<close>

text \<open>
  A calendar is a pandas data frame with the columns \<^verbatim>\<open>start_time\<close> and \<^verbatim>\<open>end_time\<close>: here the
  list of its rows. \<^verbatim>\<open>df.empty\<close> is the empty list.
\<close>

record BusyInterval =
  busy_start :: datetime
  busy_end :: datetime

section \<open>Data model\<close>

text \<open>
  The exceptions: \<^verbatim>\<open>xs[0]\<close> and \<^verbatim>\<open>min(xs)\<close> raise on an empty list, and
  \<^verbatim>\<open>time.fromisoformat\<close> raises \<^verbatim>\<open>ValueError\<close> on a string it cannot parse.
\<close>

datatype error = IndexError | ValueError

fun first_item :: "'a list \<Rightarrow> error + 'a" where
  "first_item [] = Inl IndexError"
| "first_item (x # xs) = Inr x"

fun py_min :: "nat list \<Rightarrow> error + nat" where
  "py_min [] = Inl ValueError"
| "py_min (x # xs) = Inr (fold min xs x)"

text \<open>
  A time bound of \<^verbatim>\<open>ParticipantPreferences\<close> is \<^verbatim>\<open>None\<close> or the string \<^verbatim>\<open>normalize_time\<close> lets
  through. The validator turns an integer into \<^verbatim>\<open>HH:00\<close>, keeps a string that matches
  \<^verbatim>\<open>^([01]?[0-9]|2[0-3]):[0-5][0-9]$\<close>, whose hour has two digits (\<^verbatim>\<open>HH:MM\<close>) or one
  (\<^verbatim>\<open>H:MM\<close>), turns a single digit into the two characters \<^verbatim>\<open>0H\<close>, and appends \<^verbatim>\<open>:00\<close> to
  two digits. The methods \<^verbatim>\<open>no_before\<close> and \<^verbatim>\<open>no_after\<close> parse the string with
  \<^verbatim>\<open>time.fromisoformat\<close>, which wants two digits for the hour and raises \<^verbatim>\<open>ValueError\<close> on
  \<^verbatim>\<open>H:MM\<close>; the soft score reads the hour as \<^verbatim>\<open>int(s.split(':')[0])\<close>, which every form
  allows. (The \<^verbatim>\<open>$\<close> of the pattern also lets a line feed after the digits through;
  \<^verbatim>\<open>time.fromisoformat\<close> raises on such a string as it does on \<^verbatim>\<open>H:MM\<close>, and they are left
  out here.)
\<close>

datatype time_string = HH_MM int int | H_MM int int | Zero_H int

text \<open>
  \<open>HH_MM h m\<close> is the string of the two digits of \<open>h\<close>, a colon and the two digits of \<open>m\<close>;
  \<open>H_MM h m\<close> has the one digit of \<open>h\<close> instead; \<open>Zero_H h\<close> is \<^verbatim>\<open>0\<close> and the digit of \<open>h\<close>.
  \<^verbatim>\<open>time.fromisoformat\<close> reads \<^verbatim>\<open>HH:MM\<close> and \<^verbatim>\<open>HH\<close> with an hour up to 23 and a minute up to
  59, and raises on everything else.
\<close>

fun fromisoformat :: "time_string \<Rightarrow> error + time_of_day" where
  "fromisoformat (HH_MM h m) =
     (if 0 \<le> h \<and> h \<le> 23 \<and> 0 \<le> m \<and> m \<le> 59 then Inr (time_of h m) else Inl ValueError)"
| "fromisoformat (H_MM h m) = Inl ValueError"
| "fromisoformat (Zero_H h) =
     (if 0 \<le> h \<and> h \<le> 9 then Inr (time_of h 0) else Inl ValueError)"

fun split_hour :: "time_string \<Rightarrow> int" where
  "split_hour (HH_MM h m) = h"
| "split_hour (H_MM h m) = h"
| "split_hour (Zero_H h) = h"

text \<open>
  \<^verbatim>\<open>ParticipantPreferences\<close>. The counts are validated as positive integers. A field is
  truthy in Python when it is neither \<^verbatim>\<open>None\<close>, nor \<^verbatim>\<open>False\<close>, nor zero, nor empty; a
  validated time bound is never empty.
\<close>

record ParticipantPreferences =
  no_meetings_before :: "time_string option"
  no_meetings_after :: "time_string option"
  prefer_morning :: "bool option"
  prefer_afternoon :: "bool option"
  avoid_lunch_time :: "bool option"
  max_meetings_per_day :: "nat option"
  preferred_max_duration :: "nat option"

definition truthy_bool :: "bool option \<Rightarrow> bool" where
  "truthy_bool b = (case b of None \<Rightarrow> False | Some v \<Rightarrow> v)"

definition truthy_nat :: "nat option \<Rightarrow> bool" where
  "truthy_nat n = (case n of None \<Rightarrow> False | Some v \<Rightarrow> v \<noteq> 0)"

text \<open>\<^verbatim>\<open>MeetingSchedule\<close>; the working hours are validated \<^verbatim>\<open>HH:MM\<close> strings.\<close>

record MeetingSchedule =
  schedule_day :: datetime
  default_duration :: nat
  working_hours_start :: time_of_day
  working_hours_end :: time_of_day
  time_slot_interval :: nat
  alternative_durations :: "int list"
  max_alternative_days :: nat

text \<open>\<^verbatim>\<open>SlotInfo\<close>; \<^verbatim>\<open>start_time\<close> and \<^verbatim>\<open>end_time\<close> stand for the datetimes their strings parse to.\<close>

record SlotInfo =
  start_time :: datetime
  end_time :: datetime
  duration_minutes :: nat
  confidence :: rat
  participants :: "string list"
  participant_scores :: "rat list"
  participant_notes :: "(string \<times> string list) list"
  slot_notes :: string
  day_of_week :: string
  score :: rat

datatype NegotiationOutcome = OPTIMAL_FOUND | COMPROMISE_PROPOSED | IMPOSSIBLE

datatype NegotiationStrategy =
  NONE | DURATION_ADJUSTMENT | TOD_SHIFTING | ALTERNATIVE_DAY | RELAX_CONSTRAINTS

text \<open>The enumeration is an \<^verbatim>\<open>int\<close> enumeration: strategies are compared by their values.\<close>

fun strategy_value :: "NegotiationStrategy \<Rightarrow> nat" where
  "strategy_value NONE = 0"
| "strategy_value DURATION_ADJUSTMENT = 1"
| "strategy_value TOD_SHIFTING = 2"
| "strategy_value ALTERNATIVE_DAY = 3"
| "strategy_value RELAX_CONSTRAINTS = 4"

text \<open>The reasoning texts, by their template and the values formatted into it.\<close>

datatype reasoning =
  Found_compliant_slot
| Reduced_duration nat
| Relaxed_time_of_day
| Switch_day datetime
| Extended_working_hours
| Exhausted_rounds

text \<open>
  Schedules are objects: a result refers to a schedule, and two results can refer to the
  same one. The store holds every schedule object, a reference is its index.
  \<^verbatim>\<open>model_copy(deep=True)\<close> makes a new object with the same fields; an attribute
  assignment changes the object in place.
\<close>

type_synonym ref = nat
type_synonym store = "MeetingSchedule list"

record NegotiationResult =
  outcome :: NegotiationOutcome
  proposed_schedule :: "ref option"
  selected_slot :: "SlotInfo option"
  reasoning :: reasoning
  alternative_suggestions :: "SlotInfo list"
  strategy_choose :: NegotiationStrategy

definition model_copy_deep :: "store \<Rightarrow> ref \<Rightarrow> ref \<times> store" where
  "model_copy_deep st r = (length st, st @ [st ! r])"

definition set_default_duration :: "store \<Rightarrow> ref \<Rightarrow> nat \<Rightarrow> store" where
  "set_default_duration st r v = st[r := (st ! r)\<lparr>default_duration := v\<rparr>]"

definition set_schedule_day :: "store \<Rightarrow> ref \<Rightarrow> datetime \<Rightarrow> store" where
  "set_schedule_day st r v = st[r := (st ! r)\<lparr>schedule_day := v\<rparr>]"

definition set_working_hours_start :: "store \<Rightarrow> ref \<Rightarrow> time_of_day \<Rightarrow> store" where
  "set_working_hours_start st r v = st[r := (st ! r)\<lparr>working_hours_start := v\<rparr>]"

definition set_working_hours_end :: "store \<Rightarrow> ref \<Rightarrow> time_of_day \<Rightarrow> store" where
  "set_working_hours_end st r v = st[r := (st ! r)\<lparr>working_hours_end := v\<rparr>]"

text \<open>
  \<^verbatim>\<open>xs.sort(key=lambda s: s.confidence, reverse=True)\<close>: descending and stable (equal
  confidences keep their order).
\<close>

definition sort_by_confidence :: "SlotInfo list \<Rightarrow> SlotInfo list" where
  "sort_by_confidence xs = sort_key (\<lambda>s. - confidence s) xs"

text \<open>Participants: a dictionary from name to preferences and calendar, in insertion order.\<close>

record participant_data =
  preferences :: ParticipantPreferences
  calendar :: "BusyInterval list option"

type_synonym prefs_dict = "(string \<times> ParticipantPreferences) list"
type_synonym calendars_dict = "(string \<times> BusyInterval list option) list"

text \<open>\<^verbatim>\<open>calendars.get(p)\<close>: \<^verbatim>\<open>None\<close> for a missing name and for a stored \<^verbatim>\<open>None\<close>.\<close>

definition calendars_get :: "calendars_dict \<Rightarrow> string \<Rightarrow> BusyInterval list option" where
  "calendars_get calendars p = (case map_of calendars p of None \<Rightarrow> None | Some df \<Rightarrow> df)"

text \<open>
  The number of calendar rows that start on the day beginning at \<open>day_start\<close>:
  \<^verbatim>\<open>((df["start_time"] >= day_start_dt) & (df["start_time"] < day_end_dt)).sum()\<close>.
\<close>

definition meetings_on :: "BusyInterval list \<Rightarrow> datetime \<Rightarrow> nat" where
  "meetings_on df day_start =
     length (filter (\<lambda>b. busy_start b \<ge> day_start \<and> busy_start b < day_start + timedelta_days 1) df)"

definition lunch :: "time_of_day \<times> time_of_day" where
  "lunch = (time_of 12 0, time_of 13 0)"

text \<open>
  The two conditions on the time bounds, as the strict filter and the strategies write
  them: \<^verbatim>\<open>pr.no_meetings_before and t.time() < pr.no_before()\<close> and
  \<^verbatim>\<open>pr.no_meetings_after and t.time() > pr.no_after()\<close>. The bound is parsed only when it is
  set, and the parse may raise.
\<close>

definition before_bound :: "ParticipantPreferences \<Rightarrow> datetime \<Rightarrow> error + bool" where
  "before_bound pr t =
     (case no_meetings_before pr of
        None \<Rightarrow> Inr False
      | Some s \<Rightarrow>
          (case fromisoformat s of
             Inl e \<Rightarrow> Inl e
           | Inr no_before \<Rightarrow> Inr (time_part t < no_before)))"

definition after_bound :: "ParticipantPreferences \<Rightarrow> datetime \<Rightarrow> error + bool" where
  "after_bound pr t =
     (case no_meetings_after pr of
        None \<Rightarrow> Inr False
      | Some s \<Rightarrow>
          (case fromisoformat s of
             Inl e \<Rightarrow> Inl e
           | Inr no_after \<Rightarrow> Inr (time_part t > no_after)))"

text \<open>
  A list comprehension \<^verbatim>\<open>[x for x in xs if cond(x)]\<close> whose condition may raise: the
  elements are tested from the left and the first exception leaves the comprehension.
\<close>

fun filter_raising :: "('a \<Rightarrow> error + bool) \<Rightarrow> 'a list \<Rightarrow> error + 'a list" where
  "filter_raising cond [] = Inr []"
| "filter_raising cond (x # xs) =
     (case cond x of
        Inl e \<Rightarrow> Inl e
      | Inr keep \<Rightarrow>
          (case filter_raising cond xs of
             Inl e \<Rightarrow> Inl e
           | Inr ys \<Rightarrow> Inr (if keep then x # ys else ys)))"

section \<open>Schedule analyst: generating candidate slots\<close>

text \<open>
  \<^verbatim>\<open>_generate_time_slots\<close> of an analyst built with \<^verbatim>\<open>min_slot_duration\<close>. Both of its
  \<^verbatim>\<open>while\<close> loops may run forever, so each is a partial function: \<open>None\<close> is a run that
  never returns. The inner loop returns the time it stopped at and the slots; the outer
  loop tests the weekday once, before the inner loop, and leaves with \<^verbatim>\<open>break\<close> on a weekend.
\<close>

partial_function (option) inner_loop ::
  "int \<Rightarrow> datetime \<Rightarrow> int \<Rightarrow> datetime \<Rightarrow> (datetime \<times> datetime) list \<Rightarrow>
   (datetime \<times> (datetime \<times> datetime) list) option" where
  "inner_loop min_slot_duration end_date duration current_time slots =
     (if current_time + timedelta_minutes duration \<le> end_date then
        inner_loop min_slot_duration end_date duration
          (current_time + timedelta_minutes min_slot_duration)
          (slots @ [(current_time, current_time + timedelta_minutes min_slot_duration)])
      else Some (current_time, slots))"

partial_function (option) outer_loop ::
  "int \<Rightarrow> datetime \<Rightarrow> int \<Rightarrow> datetime \<Rightarrow> (datetime \<times> datetime) list \<Rightarrow>
   (datetime \<times> datetime) list option" where
  "outer_loop min_slot_duration end_date duration current_time slots =
     (if current_time < end_date then
        if weekday current_time < 5 then
          case inner_loop min_slot_duration end_date duration current_time slots of
            None \<Rightarrow> None
          | Some (current_time', slots') \<Rightarrow>
              outer_loop min_slot_duration end_date duration current_time' slots'
        else Some slots
      else Some slots)"

definition generate_time_slots ::
  "int \<Rightarrow> datetime \<Rightarrow> datetime \<Rightarrow> int \<Rightarrow> (datetime \<times> datetime) list option" where
  "generate_time_slots min_slot_duration start_date end_date duration =
     outer_loop min_slot_duration end_date duration start_date []"

section \<open>Schedule analyst: filtering candidate slots\<close>

text \<open>
  \<^verbatim>\<open>_filter_available_slots\<close>: with no busy rows the candidates are returned as they are;
  otherwise a candidate is kept when the frame
  \<^verbatim>\<open>busy_df[(busy_df['start_time'] < slot_end) & (busy_df['end_time'] > slot_start)]\<close> is empty.
\<close>

definition conflicts :: "BusyInterval list \<Rightarrow> datetime \<Rightarrow> datetime \<Rightarrow> BusyInterval list" where
  "conflicts busy_df slot_start slot_end =
     filter (\<lambda>b. busy_start b < slot_end \<and> busy_end b > slot_start) busy_df"

definition filter_available_slots ::
  "(datetime \<times> datetime) list \<Rightarrow> BusyInterval list \<Rightarrow> (datetime \<times> datetime) list" where
  "filter_available_slots potential_slots busy_df =
     (if busy_df = [] then potential_slots
      else filter (\<lambda>(slot_start, slot_end). conflicts busy_df slot_start slot_end = [])
             potential_slots)"

section \<open>Schedule analyst: the soft score\<close>

text \<open>
  \<^verbatim>\<open>_calculate_slot_score_with_notes\<close>. The score is a rational number here, computed exactly,
  where the code uses floating point. A note is its message template with the values
  formatted into it. Each block of the function that adjusts the score and appends a
  note is one rule on the pair of score and notes, and the function applies the rules
  in the order of the code, clamps the score and appends the final assessment.
\<close>

datatype score_note =
  Starts_before_bound string int time_string
| Respects_no_meetings_before string time_string
| Ends_after_bound string int time_string
| Respects_no_meetings_after string time_string
| Aligns_with_morning string
| Not_morning string
| Aligns_with_afternoon string
| Not_afternoon string
| Conflicts_with_lunch string
| Respects_lunch string
| Duration_within_maximum string int nat
| Duration_exceeds_maximum string int nat
| Maximum_meetings_reached string nat nat
| Quite_busy string nat
| Moderately_busy string nat
| One_other_meeting string nat
| No_other_meetings string
| Back_to_back string int
| Adequate_buffer string
| Optimal_mid_morning
| Good_early_afternoon
| Early_morning
| Late_afternoon
| Very_early_morning
| Excellent_fit
| Good_fit
| Acceptable_fit
| Poor_fit

type_synonym scoring = "rat \<times> score_note list"

definition rule_no_meetings_before ::
  "string \<Rightarrow> ParticipantPreferences \<Rightarrow> datetime \<Rightarrow> scoring \<Rightarrow> scoring" where
  "rule_no_meetings_before participant_name prefs slot_start = (\<lambda>(score, notes).
     case no_meetings_before prefs of
       None \<Rightarrow> (score, notes)
     | Some bound \<Rightarrow>
         let before = split_hour bound in
         if hour slot_start < before then
           (score - 3/10, notes @ [Starts_before_bound participant_name (hour slot_start) bound])
         else (score, notes @ [Respects_no_meetings_before participant_name bound]))"

definition rule_no_meetings_after ::
  "string \<Rightarrow> ParticipantPreferences \<Rightarrow> datetime \<Rightarrow> scoring \<Rightarrow> scoring" where
  "rule_no_meetings_after participant_name prefs slot_end = (\<lambda>(score, notes).
     case no_meetings_after prefs of
       None \<Rightarrow> (score, notes)
     | Some bound \<Rightarrow>
         let after = split_hour bound in
         if hour slot_end > after then
           (score - 3/10, notes @ [Ends_after_bound participant_name (hour slot_end) bound])
         else (score, notes @ [Respects_no_meetings_after participant_name bound]))"

definition rule_prefer_morning ::
  "string \<Rightarrow> ParticipantPreferences \<Rightarrow> datetime \<Rightarrow> scoring \<Rightarrow> scoring" where
  "rule_prefer_morning participant_name prefs slot_start = (\<lambda>(score, notes).
     if truthy_bool (prefer_morning prefs) then
       if 6 \<le> hour slot_start \<and> hour slot_start < 12 then
         (score + 2/10, notes @ [Aligns_with_morning participant_name])
       else (score, notes @ [Not_morning participant_name])
     else (score, notes))"

definition rule_prefer_afternoon ::
  "string \<Rightarrow> ParticipantPreferences \<Rightarrow> datetime \<Rightarrow> scoring \<Rightarrow> scoring" where
  "rule_prefer_afternoon participant_name prefs slot_start = (\<lambda>(score, notes).
     if truthy_bool (prefer_afternoon prefs) then
       if 13 \<le> hour slot_start \<and> hour slot_start < 18 then
         (score + 2/10, notes @ [Aligns_with_afternoon participant_name])
       else (score, notes @ [Not_afternoon participant_name])
     else (score, notes))"

definition rule_avoid_lunch_time ::
  "string \<Rightarrow> ParticipantPreferences \<Rightarrow> datetime \<Rightarrow> datetime \<Rightarrow> scoring \<Rightarrow> scoring" where
  "rule_avoid_lunch_time participant_name prefs slot_start slot_end = (\<lambda>(score, notes).
     if truthy_bool (avoid_lunch_time prefs) then
       if (12 \<le> hour slot_start \<and> hour slot_start < 13)
          \<or> (12 < hour slot_end \<and> hour slot_end \<le> 13) then
         (score - 2/10, notes @ [Conflicts_with_lunch participant_name])
       else (score, notes @ [Respects_lunch participant_name])
     else (score, notes))"

definition rule_preferred_duration ::
  "string \<Rightarrow> ParticipantPreferences \<Rightarrow> int \<Rightarrow> scoring \<Rightarrow> scoring" where
  "rule_preferred_duration participant_name prefs duration = (\<lambda>(score, notes).
     if truthy_nat (preferred_max_duration prefs) then
       if duration \<le> int (the (preferred_max_duration prefs)) then
         (score + 1/10,
          notes @ [Duration_within_maximum participant_name duration
                     (the (preferred_max_duration prefs))])
       else (score,
             notes @ [Duration_exceeds_maximum participant_name duration
                        (the (preferred_max_duration prefs))])
     else (score, notes))"

text \<open>
  The calendar block: the meetings of the slot's date are counted, then the meetings
  that end within 15 minutes before the slot or start within 15 minutes after it.
\<close>

definition same_day_meetings :: "BusyInterval list \<Rightarrow> datetime \<Rightarrow> BusyInterval list" where
  "same_day_meetings calendar' slot_start =
     filter (\<lambda>b. busy_start b div 1440 = slot_start div 1440) calendar'"

definition close_meetings ::
  "BusyInterval list \<Rightarrow> datetime \<Rightarrow> datetime \<Rightarrow> int \<Rightarrow> BusyInterval list" where
  "close_meetings calendar' slot_start slot_end buffer_minutes =
     filter (\<lambda>b. (busy_end b > slot_start - timedelta_minutes buffer_minutes
                    \<and> busy_end b \<le> slot_start)
                 \<or> (busy_start b \<ge> slot_end
                    \<and> busy_start b < slot_end + timedelta_minutes buffer_minutes)) calendar'"

definition rule_meeting_count ::
  "string \<Rightarrow> ParticipantPreferences \<Rightarrow> nat \<Rightarrow> scoring \<Rightarrow> scoring" where
  "rule_meeting_count participant_name prefs meeting_count = (\<lambda>(score, notes).
     if truthy_nat (max_meetings_per_day prefs)
        \<and> meeting_count \<ge> the (max_meetings_per_day prefs) then
       (score - 3/10,
        notes @ [Maximum_meetings_reached participant_name meeting_count
                   (the (max_meetings_per_day prefs))])
     else if meeting_count \<ge> 4 then
       (score - 2/10, notes @ [Quite_busy participant_name meeting_count])
     else if meeting_count \<ge> 2 then
       (score - 1/10, notes @ [Moderately_busy participant_name meeting_count])
     else if meeting_count = 1 then
       (score, notes @ [One_other_meeting participant_name meeting_count])
     else (score, notes @ [No_other_meetings participant_name]))"

definition rule_buffer ::
  "string \<Rightarrow> BusyInterval list \<Rightarrow> datetime \<Rightarrow> datetime \<Rightarrow> scoring \<Rightarrow> scoring" where
  "rule_buffer participant_name calendar' slot_start slot_end = (\<lambda>(score, notes).
     let buffer_minutes = 15 in
     if close_meetings calendar' slot_start slot_end buffer_minutes \<noteq> [] then
       (score - 1/10, notes @ [Back_to_back participant_name buffer_minutes])
     else (score, notes @ [Adequate_buffer participant_name]))"

definition rule_calendar ::
  "string \<Rightarrow> ParticipantPreferences \<Rightarrow> BusyInterval list option \<Rightarrow> datetime \<Rightarrow> datetime \<Rightarrow>
   scoring \<Rightarrow> scoring" where
  "rule_calendar participant_name prefs calendar' slot_start slot_end = (\<lambda>state.
     case calendar' of
       None \<Rightarrow> state
     | Some df \<Rightarrow>
         if df \<noteq> [] then
           let meeting_count = length (same_day_meetings df slot_start) in
           rule_buffer participant_name df slot_start slot_end
             (rule_meeting_count participant_name prefs meeting_count state)
         else state)"

definition general_time_assessment :: "datetime \<Rightarrow> scoring \<Rightarrow> scoring" where
  "general_time_assessment slot_start = (\<lambda>(score, notes).
     let h = hour slot_start in
     if 10 \<le> h \<and> h \<le> 11 then (score, notes @ [Optimal_mid_morning])
     else if 14 \<le> h \<and> h \<le> 15 then (score, notes @ [Good_early_afternoon])
     else if h = 9 then (score, notes @ [Early_morning])
     else if h \<ge> 16 then (score, notes @ [Late_afternoon])
     else if h < 9 then (score, notes @ [Very_early_morning])
     else (score, notes))"

text \<open>The score and the notes before the clamp, from the base score 0.5.\<close>

definition score_before_clamp ::
  "datetime \<Rightarrow> datetime \<Rightarrow> int \<Rightarrow> string \<Rightarrow> participant_data \<Rightarrow> scoring" where
  "score_before_clamp slot_start slot_end duration participant_name participant_data' =
     (let prefs = preferences participant_data';
          calendar' = calendar participant_data'
      in fold (\<lambda>rule state. rule state)
           [rule_no_meetings_before participant_name prefs slot_start,
            rule_no_meetings_after participant_name prefs slot_end,
            rule_prefer_morning participant_name prefs slot_start,
            rule_prefer_afternoon participant_name prefs slot_start,
            rule_avoid_lunch_time participant_name prefs slot_start slot_end,
            rule_preferred_duration participant_name prefs duration,
            rule_calendar participant_name prefs calendar' slot_start slot_end,
            general_time_assessment slot_start]
           (1/2, []))"

definition calculate_slot_score_with_notes ::
  "datetime \<Rightarrow> datetime \<Rightarrow> int \<Rightarrow> string \<Rightarrow> participant_data \<Rightarrow> rat \<times> score_note list" where
  "calculate_slot_score_with_notes slot_start slot_end duration participant_name
       participant_data' =
     (let (score, notes) = score_before_clamp slot_start slot_end duration participant_name
                             participant_data';
          final_score = max 0 (min score 1)
      in if final_score > 8/10 then (final_score, notes @ [Excellent_fit])
         else if final_score > 6/10 then (final_score, notes @ [Good_fit])
         else if final_score > 4/10 then (final_score, notes @ [Acceptable_fit])
         else (final_score, notes @ [Poor_fit]))"

section \<open>Negotiation specialist: the strict filter\<close>

text \<open>
  The body of the loop of \<^verbatim>\<open>_slot_respects_all\<close> for one participant: \<open>Inr True\<close> when one of
  its checks returns \<^verbatim>\<open>False\<close> from the function, \<open>Inl\<close> when parsing a bound raises.
\<close>

definition slot_violates ::
  "SlotInfo \<Rightarrow> string \<Rightarrow> ParticipantPreferences \<Rightarrow> calendars_dict \<Rightarrow> error + bool" where
  "slot_violates slot p pr calendars =
     (let st = start_time slot; et = end_time slot; dur = duration_minutes slot in
      case before_bound pr st of
        Inl e \<Rightarrow> Inl e
      | Inr too_early \<Rightarrow>
          if too_early then Inr True
          else
            (case after_bound pr et of
               Inl e \<Rightarrow> Inl e
             | Inr too_late \<Rightarrow>
                 if too_late then Inr True
                 else if truthy_bool (prefer_morning pr) \<and> \<not> (6 \<le> hour st \<and> hour st < 12)
                   then Inr True
                 else if truthy_bool (prefer_afternoon pr) \<and> \<not> (13 \<le> hour st \<and> hour st < 18)
                   then Inr True
                 else if truthy_bool (avoid_lunch_time pr) \<and>
                         (fst lunch \<le> time_part st \<and> time_part st < snd lunch \<or>
                          fst lunch < time_part et \<and> time_part et \<le> snd lunch) then Inr True
                 else if truthy_nat (preferred_max_duration pr)
                         \<and> dur > the (preferred_max_duration pr)
                   then Inr True
                 else if truthy_nat (max_meetings_per_day pr) then
                   (case calendars_get calendars p of
                      None \<Rightarrow> Inr False
                    | Some df \<Rightarrow>
                        if df \<noteq> [] then
                          Inr (meetings_on df (midnight st) \<ge> the (max_meetings_per_day pr))
                        else Inr False)
                 else Inr False))"

fun slot_respects_all :: "SlotInfo \<Rightarrow> prefs_dict \<Rightarrow> calendars_dict \<Rightarrow> error + bool" where
  "slot_respects_all slot [] calendars = Inr True"
| "slot_respects_all slot ((p, pr) # prefs) calendars =
     (case slot_violates slot p pr calendars of
        Inl e \<Rightarrow> Inl e
      | Inr violated \<Rightarrow>
          if violated then Inr False else slot_respects_all slot prefs calendars)"

section \<open>Negotiation specialist: the relaxation strategies\<close>

text \<open>
  Every strategy takes the reference \<^verbatim>\<open>self.initial\<close> and the store, and returns the store
  with its result: \<^verbatim>\<open>None\<close>, or a \<^verbatim>\<open>NegotiationResult\<close>.
\<close>

type_synonym strategy_return = "error + (NegotiationResult option \<times> store)"

text \<open>\<^verbatim>\<open>_strategy_duration_adjust\<close>.\<close>

definition strategy_duration_adjust ::
  "ref \<Rightarrow> store \<Rightarrow> SlotInfo list \<Rightarrow> prefs_dict \<Rightarrow> strategy_return" where
  "strategy_duration_adjust self_initial st slots prefs =
     (let caps = map (\<lambda>(p, pr). the (preferred_max_duration pr))
                   (filter (\<lambda>(p, pr). truthy_nat (preferred_max_duration pr)) prefs) in
      if caps = [] then Inr (None, st)
      else case py_min caps of
        Inl e \<Rightarrow> Inl e
      | Inr smallest_cap \<Rightarrow>
          if smallest_cap \<ge> default_duration (st ! self_initial) then Inr (None, st)
          else
            let (new_sched, st1) = model_copy_deep st self_initial;
                st2 = set_default_duration st1 new_sched smallest_cap;
                compat = map (\<lambda>s. s\<lparr>duration_minutes := smallest_cap\<rparr>)
                           (filter (\<lambda>s. duration_minutes s \<ge> smallest_cap) slots)
            in
            if compat = [] then Inr (None, st2)
            else
              let compat = sort_by_confidence compat in
              case first_item compat of
                Inl e \<Rightarrow> Inl e
              | Inr best_slot \<Rightarrow>
                  Inr (Some \<lparr>outcome = COMPROMISE_PROPOSED,
                             proposed_schedule = Some new_sched,
                             selected_slot = Some best_slot,
                             reasoning = Reduced_duration smallest_cap,
                             alternative_suggestions = take 2 (drop 1 compat),
                             strategy_choose = DURATION_ADJUSTMENT\<rparr>, st2))"

text \<open>
  \<^verbatim>\<open>_strategy_time_shift\<close>. Its inner function \<^verbatim>\<open>ok\<close> parses both \<^verbatim>\<open>st\<close> and \<^verbatim>\<open>et\<close> from
  \<^verbatim>\<open>slot.start_time\<close>. An exception of \<^verbatim>\<open>ok\<close> leaves the comprehension that builds
  \<^verbatim>\<open>viable\<close>, and the strategy.
\<close>

definition time_shift_violates :: "SlotInfo \<Rightarrow> ParticipantPreferences \<Rightarrow> error + bool" where
  "time_shift_violates slot pr =
     (let st = start_time slot; et = start_time slot in
      case before_bound pr st of
        Inl e \<Rightarrow> Inl e
      | Inr too_early \<Rightarrow>
          if too_early then Inr True
          else
            (case after_bound pr et of
               Inl e \<Rightarrow> Inl e
             | Inr too_late \<Rightarrow>
                 if too_late then Inr True
                 else if truthy_bool (avoid_lunch_time pr) \<and>
                         (fst lunch \<le> time_part st \<and> time_part st < snd lunch \<or>
                          fst lunch < time_part et \<and> time_part et \<le> snd lunch) then Inr True
                 else if truthy_nat (preferred_max_duration pr) \<and>
                         duration_minutes slot > the (preferred_max_duration pr) then Inr True
                 else Inr False))"

fun ok :: "prefs_dict \<Rightarrow> SlotInfo \<Rightarrow> error + bool" where
  "ok [] slot = Inr True"
| "ok ((p, pr) # prefs) slot =
     (case time_shift_violates slot pr of
        Inl e \<Rightarrow> Inl e
      | Inr violated \<Rightarrow> if violated then Inr False else ok prefs slot)"

definition strategy_time_shift ::
  "ref \<Rightarrow> store \<Rightarrow> SlotInfo list \<Rightarrow> prefs_dict \<Rightarrow> strategy_return" where
  "strategy_time_shift self_initial st slots prefs =
     (case filter_raising (ok prefs) slots of
        Inl e \<Rightarrow> Inl e
      | Inr viable \<Rightarrow>
          if viable = [] then Inr (None, st)
          else
            let viable = sort_by_confidence viable in
            case first_item viable of
              Inl e \<Rightarrow> Inl e
            | Inr best_slot \<Rightarrow>
                let (new_sched, st1) = model_copy_deep st self_initial;
                    st2 = set_schedule_day st1 new_sched (start_time best_slot)
                in Inr (Some \<lparr>outcome = COMPROMISE_PROPOSED,
                              proposed_schedule = Some new_sched,
                              selected_slot = Some best_slot,
                              reasoning = Relaxed_time_of_day,
                              alternative_suggestions = take 2 (drop 1 viable),
                              strategy_choose = TOD_SHIFTING\<rparr>, st2))"

text \<open>
  \<^verbatim>\<open>_strategy_alternative_day\<close>. The inner loop over the participants decides \<^verbatim>\<open>day_ok\<close>; the
  two outer loops visit the days \<open>base_day + offset\<close>, \<open>base_day - offset\<close> for the offsets
  \<open>1, ..., max_alternative_days\<close> and return at the first weekday that is \<^verbatim>\<open>day_ok\<close>.
\<close>

fun day_ok :: "datetime \<Rightarrow> prefs_dict \<Rightarrow> calendars_dict \<Rightarrow> bool" where
  "day_ok day [] calendars = True"
| "day_ok day ((p, pref) # prefs) calendars =
     (if \<not> truthy_nat (max_meetings_per_day pref) then day_ok day prefs calendars
      else case calendars_get calendars p of
        None \<Rightarrow> day_ok day prefs calendars
      | Some df \<Rightarrow>
          if df = [] then day_ok day prefs calendars
          else if meetings_on df day \<ge> the (max_meetings_per_day pref) then False
          else day_ok day prefs calendars)"

definition days_to_try :: "datetime \<Rightarrow> nat \<Rightarrow> datetime list" where
  "days_to_try base_day max_days =
     concat (map (\<lambda>offset. map (\<lambda>sign. base_day + timedelta_days (sign * int offset)) [1, -1])
               [1 ..< max_days + 1])"

fun search_days :: "datetime list \<Rightarrow> prefs_dict \<Rightarrow> calendars_dict \<Rightarrow> datetime option" where
  "search_days [] prefs calendars = None"
| "search_days (day # days) prefs calendars =
     (if weekday day \<ge> 5 then search_days days prefs calendars
      else if \<not> day_ok day prefs calendars then search_days days prefs calendars
      else Some day)"

definition strategy_alternative_day ::
  "ref \<Rightarrow> store \<Rightarrow> SlotInfo list \<Rightarrow> prefs_dict \<Rightarrow> calendars_dict \<Rightarrow> strategy_return" where
  "strategy_alternative_day self_initial st slots prefs calendars =
     (if max_alternative_days (st ! self_initial) = 0 then Inr (None, st)
      else
        let base_day = schedule_day (st ! self_initial) in
        case search_days (days_to_try base_day (max_alternative_days (st ! self_initial)))
               prefs calendars of
          None \<Rightarrow> Inr (None, st)
        | Some day \<Rightarrow>
            let (new_sched, st1) = model_copy_deep st self_initial;
                st2 = set_schedule_day st1 new_sched day
            in Inr (Some \<lparr>outcome = COMPROMISE_PROPOSED,
                          proposed_schedule = Some new_sched,
                          selected_slot = None,
                          reasoning = Switch_day day,
                          alternative_suggestions = [],
                          strategy_choose = ALTERNATIVE_DAY\<rparr>, st2))"

text \<open>
  \<^verbatim>\<open>_strategy_relax_hours\<close>. The loop over the participants sets \<^verbatim>\<open>allowed = False\<close> and
  breaks at the first violated bound; here \<^verbatim>\<open>et\<close> is parsed from \<^verbatim>\<open>s.end_time\<close>. An
  exception in the loop over the slots leaves the strategy. The new working hours are
  formatted with \<^verbatim>\<open>%H:%M\<close>, so they wrap around midnight.
\<close>

definition relax_violates :: "SlotInfo \<Rightarrow> ParticipantPreferences \<Rightarrow> error + bool" where
  "relax_violates s pr =
     (let st = start_time s; et = end_time s in
      case before_bound pr st of
        Inl e \<Rightarrow> Inl e
      | Inr too_early \<Rightarrow>
          if too_early then Inr True
          else
            (case after_bound pr et of
               Inl e \<Rightarrow> Inl e
             | Inr too_late \<Rightarrow>
                 if too_late then Inr True
                 else if truthy_bool (avoid_lunch_time pr) \<and>
                         (fst lunch \<le> time_part st \<and> time_part st < snd lunch \<or>
                          fst lunch < time_part et \<and> time_part et \<le> snd lunch) then Inr True
                 else if truthy_nat (preferred_max_duration pr) \<and>
                         duration_minutes s > the (preferred_max_duration pr) then Inr True
                 else Inr False))"

fun allowed :: "prefs_dict \<Rightarrow> SlotInfo \<Rightarrow> error + bool" where
  "allowed [] s = Inr True"
| "allowed ((p, pr) # prefs) s =
     (case relax_violates s pr of
        Inl e \<Rightarrow> Inl e
      | Inr violated \<Rightarrow> if violated then Inr False else allowed prefs s)"

definition strategy_relax_hours ::
  "ref \<Rightarrow> store \<Rightarrow> SlotInfo list \<Rightarrow> prefs_dict \<Rightarrow> strategy_return" where
  "strategy_relax_hours self_initial st slots prefs =
     (case filter_raising (allowed prefs) slots of
        Inl e \<Rightarrow> Inl e
      | Inr widened_slots \<Rightarrow>
          if widened_slots = [] then Inr (None, st)
          else
            let widened_slots = sort_by_confidence widened_slots in
            case first_item widened_slots of
              Inl e \<Rightarrow> Inl e
            | Inr best_slot \<Rightarrow>
                let begin_time = working_hours_start (st ! self_initial);
                    end_time' = working_hours_end (st ! self_initial);
                    new_start = (begin_time - timedelta_minutes 30) mod 1440;
                    new_end = (end_time' + timedelta_minutes 30) mod 1440;
                    (new_sched, st1) = model_copy_deep st self_initial;
                    st2 = set_working_hours_start st1 new_sched new_start;
                    st3 = set_working_hours_end st2 new_sched new_end
                in Inr (Some \<lparr>outcome = COMPROMISE_PROPOSED,
                              proposed_schedule = Some new_sched,
                              selected_slot = Some best_slot,
                              reasoning = Extended_working_hours,
                              alternative_suggestions = take 2 (drop 1 widened_slots),
                              strategy_choose = RELAX_CONSTRAINTS\<rparr>, st3))"

section \<open>Negotiation specialist: the strategy ladder\<close>

text \<open>
  A run of \<^verbatim>\<open>negotiate_schedule\<close> returns its result, the store it leaves, and the strategies
  it called in order, each with whether it returned a result (the run logs both).
\<close>

record run =
  result :: NegotiationResult
  store_after :: store
  tried :: "(NegotiationStrategy \<times> bool) list"

type_synonym negotiation_return = "error + run"

text \<open>The last block of \<^verbatim>\<open>negotiate_schedule\<close>: every strategy is exhausted.\<close>

definition declare_impossible :: "store \<Rightarrow> (NegotiationStrategy \<times> bool) list \<Rightarrow> negotiation_return" where
  "declare_impossible st tr =
     Inr \<lparr>result = \<lparr>outcome = IMPOSSIBLE,
                     proposed_schedule = None,
                     selected_slot = None,
                     reasoning = Exhausted_rounds,
                     alternative_suggestions = [],
                     strategy_choose = NONE\<rparr>,
          store_after = st, tried = tr\<rparr>"

text \<open>
  The four blocks of the ladder, last first. Each block runs its strategy when the
  condition on \<^verbatim>\<open>previous_strategy\<close> holds, returns the strategy's result when there is one,
  and falls through to the next block otherwise.
\<close>

definition try_relax_constraints ::
  "ref \<Rightarrow> store \<Rightarrow> (NegotiationStrategy \<times> bool) list \<Rightarrow> SlotInfo list \<Rightarrow> prefs_dict \<Rightarrow>
   NegotiationStrategy \<Rightarrow> negotiation_return" where
  "try_relax_constraints self_initial st tr available_slots prefs previous_strategy =
     (if strategy_value previous_strategy < strategy_value RELAX_CONSTRAINTS then
        case strategy_relax_hours self_initial st available_slots prefs of
          Inl e \<Rightarrow> Inl e
        | Inr (Some r, st') \<Rightarrow>
            Inr \<lparr>result = r, store_after = st', tried = tr @ [(RELAX_CONSTRAINTS, True)]\<rparr>
        | Inr (None, st') \<Rightarrow> declare_impossible st' (tr @ [(RELAX_CONSTRAINTS, False)])
      else declare_impossible st tr)"

definition try_alternative_day ::
  "ref \<Rightarrow> store \<Rightarrow> (NegotiationStrategy \<times> bool) list \<Rightarrow> SlotInfo list \<Rightarrow> prefs_dict \<Rightarrow>
   calendars_dict \<Rightarrow> NegotiationStrategy \<Rightarrow> negotiation_return" where
  "try_alternative_day self_initial st tr available_slots prefs calendars previous_strategy =
     (if strategy_value previous_strategy < strategy_value ALTERNATIVE_DAY then
        case strategy_alternative_day self_initial st available_slots prefs calendars of
          Inl e \<Rightarrow> Inl e
        | Inr (Some r, st') \<Rightarrow>
            Inr \<lparr>result = r, store_after = st', tried = tr @ [(ALTERNATIVE_DAY, True)]\<rparr>
        | Inr (None, st') \<Rightarrow>
            try_relax_constraints self_initial st' (tr @ [(ALTERNATIVE_DAY, False)])
              available_slots prefs previous_strategy
      else try_relax_constraints self_initial st tr available_slots prefs previous_strategy)"

definition try_time_of_day_shifting ::
  "ref \<Rightarrow> store \<Rightarrow> (NegotiationStrategy \<times> bool) list \<Rightarrow> SlotInfo list \<Rightarrow> prefs_dict \<Rightarrow>
   calendars_dict \<Rightarrow> NegotiationStrategy \<Rightarrow> negotiation_return" where
  "try_time_of_day_shifting self_initial st tr available_slots prefs calendars previous_strategy =
     (if strategy_value previous_strategy < strategy_value TOD_SHIFTING
         \<or> strategy_value previous_strategy \<ge> strategy_value ALTERNATIVE_DAY then
        case strategy_time_shift self_initial st available_slots prefs of
          Inl e \<Rightarrow> Inl e
        | Inr (Some r, st') \<Rightarrow>
            Inr \<lparr>result = r, store_after = st', tried = tr @ [(TOD_SHIFTING, True)]\<rparr>
        | Inr (None, st') \<Rightarrow>
            try_alternative_day self_initial st' (tr @ [(TOD_SHIFTING, False)])
              available_slots prefs calendars previous_strategy
      else try_alternative_day self_initial st tr available_slots prefs calendars
             previous_strategy)"

definition try_duration_adjustment ::
  "ref \<Rightarrow> store \<Rightarrow> (NegotiationStrategy \<times> bool) list \<Rightarrow> SlotInfo list \<Rightarrow> prefs_dict \<Rightarrow>
   calendars_dict \<Rightarrow> NegotiationStrategy \<Rightarrow> negotiation_return" where
  "try_duration_adjustment self_initial st tr available_slots prefs calendars previous_strategy =
     (if strategy_value previous_strategy < strategy_value DURATION_ADJUSTMENT
         \<or> strategy_value previous_strategy \<ge> strategy_value ALTERNATIVE_DAY then
        case strategy_duration_adjust self_initial st available_slots prefs of
          Inl e \<Rightarrow> Inl e
        | Inr (Some r, st') \<Rightarrow>
            Inr \<lparr>result = r, store_after = st', tried = tr @ [(DURATION_ADJUSTMENT, True)]\<rparr>
        | Inr (None, st') \<Rightarrow>
            try_time_of_day_shifting self_initial st' (tr @ [(DURATION_ADJUSTMENT, False)])
              available_slots prefs calendars previous_strategy
      else try_time_of_day_shifting self_initial st tr available_slots prefs calendars
             previous_strategy)"

text \<open>
  \<^verbatim>\<open>negotiate_schedule\<close>: the strict filter first; its best survivor is returned with the
  schedule \<^verbatim>\<open>self.initial\<close> itself. Without a survivor the ladder starts. Nothing in the
  function catches an exception of the filter or of a strategy.
\<close>

definition prefs_of :: "(string \<times> participant_data) list \<Rightarrow> prefs_dict" where
  "prefs_of participants_data = map (\<lambda>(p, d). (p, preferences d)) participants_data"

definition calendars_of :: "(string \<times> participant_data) list \<Rightarrow> calendars_dict" where
  "calendars_of participants_data = map (\<lambda>(p, d). (p, calendar d)) participants_data"

definition negotiate_schedule ::
  "ref \<Rightarrow> store \<Rightarrow> SlotInfo list \<Rightarrow> (string \<times> participant_data) list \<Rightarrow> rat \<Rightarrow>
   NegotiationStrategy \<Rightarrow> negotiation_return" where
  "negotiate_schedule self_initial st available_slots participants_data min_score
       previous_strategy =
     (let prefs = prefs_of participants_data;
          calendars = calendars_of participants_data
      in
      case filter_raising (\<lambda>s. slot_respects_all s prefs calendars) available_slots of
        Inl e \<Rightarrow> Inl e
      | Inr ok_slots \<Rightarrow>
          if ok_slots \<noteq> [] then
            let ok_slots = sort_by_confidence ok_slots in
            case first_item ok_slots of
              Inl e \<Rightarrow> Inl e
            | Inr best \<Rightarrow>
                let outcome' = (if confidence best \<ge> min_score then OPTIMAL_FOUND
                                else COMPROMISE_PROPOSED)
                in Inr \<lparr>result = \<lparr>outcome = outcome',
                                   proposed_schedule = Some self_initial,
                                   selected_slot = Some best,
                                   reasoning = Found_compliant_slot,
                                   alternative_suggestions = take 2 (drop 1 ok_slots),
                                   strategy_choose = NONE\<rparr>,
                        store_after = st, tried = []\<rparr>
          else try_duration_adjustment self_initial st [] available_slots prefs calendars
                 previous_strategy)"

section \<open>Round controller: collecting suggestions and the fallback\<close>

text \<open>
  The coordinator's loop appends, for every round, the selected slot (when there is one)
  and the alternative suggestions to \<^verbatim>\<open>all_suggestions\<close>. After the loop, when no round was
  optimal, it counts the suggestions (\<^verbatim>\<open>Counter\<close> keeps the order of first occurrence and
  \<^verbatim>\<open>most_common(1)\<close> returns the first entry with the greatest count), sorts them by
  confidence, and compares the two candidates. Suggestions are compared by their JSON
  text, that is by value.
\<close>

definition collect_suggestions :: "SlotInfo list \<Rightarrow> NegotiationResult \<Rightarrow> SlotInfo list" where
  "collect_suggestions all_suggestions negotiation =
     (let all_suggestions =
            (case selected_slot negotiation of
               None \<Rightarrow> all_suggestions
             | Some s \<Rightarrow> all_suggestions @ [s]);
          suggestions = alternative_suggestions negotiation
      in if suggestions \<noteq> [] then all_suggestions @ suggestions else all_suggestions)"

definition counter_items :: "'a list \<Rightarrow> ('a \<times> nat) list" where
  "counter_items xs = map (\<lambda>x. (x, count_list xs x)) (rev (remdups (rev xs)))"

fun most_common_1 :: "'a list \<Rightarrow> ('a \<times> nat) list" where
  "most_common_1 xs =
     (case counter_items xs of
        [] \<Rightarrow> []
      | item # items \<Rightarrow>
          [fold (\<lambda>candidate best. if snd candidate > snd best then candidate else best)
             items item])"

definition fallback_selection ::
  "bool \<Rightarrow> SlotInfo option \<Rightarrow> SlotInfo list \<Rightarrow> error + SlotInfo option" where
  "fallback_selection optimal_found best_slot all_suggestions =
     (if \<not> optimal_found then
        if all_suggestions \<noteq> [] then
          case first_item (most_common_1 all_suggestions) of
            Inl e \<Rightarrow> Inl e
          | Inr (most_common, count) \<Rightarrow>
              (case first_item (sort_by_confidence all_suggestions) of
                 Inl e \<Rightarrow> Inl e
               | Inr highest_confidence \<Rightarrow>
                   Inr (Some (if confidence most_common > confidence highest_confidence
                              then most_common else highest_confidence)))
        else Inr None
      else Inr best_slot)"

section \<open>Auxiliary predicates for the proofs about the ladder\<close>

text \<open>
  \<open>ladder_inv k prev tr\<close> holds of the calls \<open>tr\<close> logged before the block of the strategy
  with value \<open>k\<close>; \<open>ladder_post prev r\<close> is what every block then guarantees of its run.
\<close>

definition ladder_inv :: "nat \<Rightarrow> NegotiationStrategy \<Rightarrow> (NegotiationStrategy \<times> bool) list \<Rightarrow> bool" where
  "ladder_inv k prev tr \<longleftrightarrow>
     sorted_wrt (<) (map (strategy_value \<circ> fst) tr)
     \<and> (\<forall>t \<in> set tr. 1 \<le> strategy_value (fst t) \<and> strategy_value (fst t) < k \<and> \<not> snd t
            \<and> (strategy_value prev < strategy_value (fst t) \<or> 3 \<le> strategy_value prev))
     \<and> (\<forall>j. j \<noteq> NONE \<and> strategy_value j < k \<and> j \<notin> fst ` set tr \<longrightarrow>
            strategy_value j \<le> strategy_value prev)"

definition ladder_post :: "NegotiationStrategy \<Rightarrow> run \<Rightarrow> bool" where
  "ladder_post prev r \<longleftrightarrow>
     sorted_wrt (<) (map (strategy_value \<circ> fst) (tried r))
     \<and> (\<forall>t \<in> set (tried r). 1 \<le> strategy_value (fst t)
            \<and> (strategy_value prev < strategy_value (fst t) \<or> 3 \<le> strategy_value prev))
     \<and> ((outcome (result r) = IMPOSSIBLE \<and> proposed_schedule (result r) = None
          \<and> selected_slot (result r) = None \<and> alternative_suggestions (result r) = []
          \<and> strategy_choose (result r) = NONE \<and> (\<forall>t \<in> set (tried r). \<not> snd t))
         \<or> (\<exists>pre k. tried r = pre @ [(k, True)] \<and> (\<forall>t \<in> set pre. \<not> snd t)
               \<and> strategy_choose (result r) = k \<and> k \<noteq> NONE
               \<and> outcome (result r) = COMPROMISE_PROPOSED
               \<and> (\<forall>j. j \<noteq> NONE \<and> strategy_value j < strategy_value k \<and> j \<notin> fst ` set pre
                      \<longrightarrow> strategy_value j \<le> strategy_value prev)))"

text \<open>
  \<open>bounds_parse prefs\<close>: \<^verbatim>\<open>time.fromisoformat\<close> parses every time bound that is set in
  \<open>prefs\<close>, so that \<^verbatim>\<open>no_before\<close> and \<^verbatim>\<open>no_after\<close> raise for no participant.
\<close>

definition parses :: "time_string option \<Rightarrow> bool" where
  "parses bound =
     (case bound of
        None \<Rightarrow> True
      | Some s \<Rightarrow> (case fromisoformat s of Inl e \<Rightarrow> False | Inr t \<Rightarrow> True))"

definition bounds_parse :: "prefs_dict \<Rightarrow> bool" where
  "bounds_parse prefs =
     list_all (\<lambda>(p, pr). parses (no_meetings_before pr) \<and> parses (no_meetings_after pr)) prefs"

section \<open>Example data\<close>

text \<open>
  Monday 2024-01-01 is day 738885 after 0001-01-01. The schedule has the default fields
  of \<^verbatim>\<open>MeetingSchedule\<close> with a duration of one hour.
\<close>

definition monday :: int where
  "monday = 738885"

definition example_schedule :: MeetingSchedule where
  "example_schedule =
     \<lparr>schedule_day = datetime_of monday 0 0, default_duration = 60,
      working_hours_start = time_of 8 0, working_hours_end = time_of 18 0,
      time_slot_interval = 30, alternative_durations = [15, 45, 60],
      max_alternative_days = 3\<rparr>"

definition no_preferences :: ParticipantPreferences where
  "no_preferences =
     \<lparr>no_meetings_before = None, no_meetings_after = None, prefer_morning = None,
      prefer_afternoon = None, avoid_lunch_time = None, max_meetings_per_day = None,
      preferred_max_duration = None\<rparr>"

definition slot_at :: "datetime \<Rightarrow> datetime \<Rightarrow> nat \<Rightarrow> rat \<Rightarrow> SlotInfo" where
  "slot_at s e d c =
     \<lparr>start_time = s, end_time = e, duration_minutes = d, confidence = c,
      participants = [], participant_scores = [], participant_notes = [],
      slot_notes = [], day_of_week = ''Monday'', score = c\<rparr>"

definition participant :: "string \<Rightarrow> ParticipantPreferences \<Rightarrow> string \<times> participant_data" where
  "participant name pr = (name, \<lparr>preferences = pr, calendar = None\<rparr>)"

text \<open>The scenario of three rounds: slot X at confidence 0.55, slot Y at confidence 0.9.\<close>

definition suggestion_x :: SlotInfo where
  "suggestion_x = slot_at (datetime_of monday 9 0) (datetime_of monday 10 0) 60 (11/20)"

definition suggestion_y :: SlotInfo where
  "suggestion_y = slot_at (datetime_of monday 14 0) (datetime_of monday 15 0) 60 (9/10)"

definition compromise_with :: "SlotInfo \<Rightarrow> NegotiationResult" where
  "compromise_with s =
     \<lparr>outcome = COMPROMISE_PROPOSED, proposed_schedule = Some 0, selected_slot = Some s,
      reasoning = Found_compliant_slot, alternative_suggestions = [], strategy_choose = NONE\<rparr>"

section \<open>Properties of the conflict filter\<close>

lemma conflicts_empty_iff:
  "conflicts busy_df s e = [] \<longleftrightarrow> (\<forall>b \<in> set busy_df. \<not> (busy_start b < e \<and> busy_end b > s))"
  by (auto simp: conflicts_def filter_empty_conv)

lemma filter_available_slots_eq:
  "filter_available_slots slots busy_df =
     filter (\<lambda>(s, e). \<forall>b \<in> set busy_df. \<not> (busy_start b < e \<and> busy_end b > s)) slots"
  by (cases "busy_df = []") (simp_all add: filter_available_slots_def conflicts_empty_iff)

lemma subseq_filter_mono:
  "(\<And>x. x \<in> set xs \<Longrightarrow> P x \<Longrightarrow> Q x) \<Longrightarrow> subseq (filter P xs) (filter Q xs)"
proof (induction xs)
  case Nil
  then show ?case by simp
next
  case (Cons x xs)
  then have ih: "subseq (filter P xs) (filter Q xs)" by simp
  show ?case
  proof (cases "P x")
    case True
    with Cons.prems have "Q x" by simp
    with True ih show ?thesis by simp
  next
    case False
    with ih show ?thesis by (cases "Q x") (simp_all add: list_emb_Cons)
  qed
qed

text \<open>
  C8. The conflict filter returns a subsequence of the candidates, made of exactly the
  candidates that no busy interval overlaps (\<^verbatim>\<open>busy.start < slot.end\<close> and
  \<^verbatim>\<open>busy.end > slot.start\<close>); with fewer busy intervals (one removed, or any subset) every
  candidate accepted before is still accepted, in the same order; and with no busy
  interval every candidate passes unchanged.
\<close>

theorem filter_conflicts_monotonic:
  "subseq (filter_available_slots slots busy_df) slots
   \<and> filter_available_slots slots busy_df =
       filter (\<lambda>(s, e). \<not> (\<exists>b \<in> set busy_df. busy_start b < e \<and> busy_end b > s)) slots
   \<and> subseq (filter_available_slots slots busy_df)
             (filter_available_slots slots (remove1 b busy_df))
   \<and> (set busy_df' \<subseteq> set busy_df \<longrightarrow>
        subseq (filter_available_slots slots busy_df) (filter_available_slots slots busy_df'))
   \<and> filter_available_slots slots [] = slots"
proof -
  have sub: "subseq (filter_available_slots slots busy_df) slots"
    by (simp add: filter_available_slots_eq)
  have exact: "filter_available_slots slots busy_df =
       filter (\<lambda>(s, e). \<not> (\<exists>b \<in> set busy_df. busy_start b < e \<and> busy_end b > s)) slots"
    by (simp add: filter_available_slots_eq)
  have mono: "subseq (filter_available_slots slots busy_df) (filter_available_slots slots bs)"
    if "set bs \<subseteq> set busy_df" for bs
    unfolding filter_available_slots_eq
    by (rule subseq_filter_mono) (use that in auto)
  have rem: "subseq (filter_available_slots slots busy_df)
                    (filter_available_slots slots (remove1 b busy_df))"
    by (rule mono) (rule set_remove1_subset)
  have none: "filter_available_slots slots [] = slots"
    by (simp add: filter_available_slots_def)
  from sub exact rem mono none show ?thesis by blast
qed

theorem filter_conflicts_monotonic_witness:
  "filter_available_slots
      [(datetime_of 738885 9 0, datetime_of 738885 10 0),
       (datetime_of 738885 10 0, datetime_of 738885 11 0)]
      [\<lparr>busy_start = datetime_of 738885 9 30, busy_end = datetime_of 738885 10 0\<rparr>]
    = [(datetime_of 738885 10 0, datetime_of 738885 11 0)]
   \<and> set ([] :: BusyInterval list)
       \<subseteq> set [\<lparr>busy_start = datetime_of 738885 9 30, busy_end = datetime_of 738885 10 0\<rparr>]
   \<and> subseq
       (filter_available_slots
          [(datetime_of 738885 9 0, datetime_of 738885 10 0),
           (datetime_of 738885 10 0, datetime_of 738885 11 0)]
          [\<lparr>busy_start = datetime_of 738885 9 30, busy_end = datetime_of 738885 10 0\<rparr>])
       (filter_available_slots
          [(datetime_of 738885 9 0, datetime_of 738885 10 0),
           (datetime_of 738885 10 0, datetime_of 738885 11 0)]
          [])"
  using filter_conflicts_monotonic
    [of "[(datetime_of 738885 9 0, datetime_of 738885 10 0),
          (datetime_of 738885 10 0, datetime_of 738885 11 0)]"
        "[\<lparr>busy_start = datetime_of 738885 9 30, busy_end = datetime_of 738885 10 0\<rparr>]"
        "\<lparr>busy_start = datetime_of 738885 9 30, busy_end = datetime_of 738885 10 0\<rparr>"
        "[]"]
  by (simp add: filter_available_slots_def conflicts_def datetime_of_def)

section \<open>Properties of the strategies\<close>

lemma sort_by_confidence_Nil_iff [simp]: "sort_by_confidence xs = [] \<longleftrightarrow> xs = []"
  unfolding sort_by_confidence_def by (metis length_sort length_0_conv)

lemma first_item_Inr_iff: "first_item xs = Inr x \<longleftrightarrow> (xs \<noteq> [] \<and> x = hd xs)"
  by (cases xs) auto

lemma first_item_Inl_iff: "first_item xs = Inl e \<longleftrightarrow> (xs = [] \<and> e = IndexError)"
  by (cases xs) auto

lemma py_min_Inl_iff: "py_min xs = Inl e \<longleftrightarrow> (xs = [] \<and> e = ValueError)"
  by (cases xs) auto

lemma filter_raising_Inr_iff:
  "filter_raising c xs = Inr ys \<longleftrightarrow>
     (\<forall>x \<in> set xs. \<exists>b. c x = Inr b) \<and> ys = filter (\<lambda>x. c x = Inr True) xs"
proof (induction xs arbitrary: ys)
  case Nil
  show ?case by auto
next
  case (Cons x xs)
  show ?case
  proof (cases "c x")
    case (Inl e)
    then show ?thesis by simp
  next
    case (Inr keep)
    show ?thesis
    proof (cases "filter_raising c xs")
      case (Inl e)
      with Cons.IH[of "filter (\<lambda>x. c x = Inr True) xs"] obtain z where "z \<in> set xs" "\<forall>b. c z \<noteq> Inr b"
        by auto
      with Inl Inr show ?thesis by auto
    next
      case zs: (Inr zs)
      with Cons.IH[of zs] have "(\<forall>x \<in> set xs. \<exists>b. c x = Inr b)"
        and "zs = filter (\<lambda>x. c x = Inr True) xs" by simp_all
      with Inr zs show ?thesis by auto
    qed
  qed
qed

lemma filter_raising_Inl:
  "filter_raising c xs = Inl e \<Longrightarrow> \<exists>x \<in> set xs. c x = Inl e"
  by (induction xs) (auto split: sum.splits)

lemma fromisoformat_Inl: "fromisoformat s = Inl e \<Longrightarrow> e = ValueError"
  by (cases s) (auto split: if_splits)

lemma before_bound_cases:
  "before_bound pr t = Inl e \<Longrightarrow> e = ValueError \<and> \<not> parses (no_meetings_before pr)"
  by (auto simp: before_bound_def parses_def split: option.splits sum.splits
      dest: fromisoformat_Inl)

lemma after_bound_cases:
  "after_bound pr t = Inl e \<Longrightarrow> e = ValueError \<and> \<not> parses (no_meetings_after pr)"
  by (auto simp: after_bound_def parses_def split: option.splits sum.splits
      dest: fromisoformat_Inl)

lemma slot_violates_Inl:
  "slot_violates slot p pr cals = Inl e \<Longrightarrow>
   e = ValueError \<and> \<not> (parses (no_meetings_before pr) \<and> parses (no_meetings_after pr))"
  by (auto simp: slot_violates_def Let_def split: sum.splits if_splits option.splits
      dest: before_bound_cases after_bound_cases)

lemma time_shift_violates_Inl:
  "time_shift_violates slot pr = Inl e \<Longrightarrow>
   e = ValueError \<and> \<not> (parses (no_meetings_before pr) \<and> parses (no_meetings_after pr))"
  by (auto simp: time_shift_violates_def Let_def split: sum.splits if_splits
      dest: before_bound_cases after_bound_cases)

lemma relax_violates_Inl:
  "relax_violates slot pr = Inl e \<Longrightarrow>
   e = ValueError \<and> \<not> (parses (no_meetings_before pr) \<and> parses (no_meetings_after pr))"
  by (auto simp: relax_violates_def Let_def split: sum.splits if_splits
      dest: before_bound_cases after_bound_cases)

lemma slot_respects_all_Inl:
  "slot_respects_all slot prefs cals = Inl e \<Longrightarrow> e = ValueError \<and> \<not> bounds_parse prefs"
  by (induction prefs)
     (auto simp: bounds_parse_def split: sum.splits if_splits dest: slot_violates_Inl)

lemma ok_Inl: "ok prefs slot = Inl e \<Longrightarrow> e = ValueError \<and> \<not> bounds_parse prefs"
  by (induction prefs)
     (auto simp: bounds_parse_def split: sum.splits if_splits dest: time_shift_violates_Inl)

lemma allowed_Inl: "allowed prefs slot = Inl e \<Longrightarrow> e = ValueError \<and> \<not> bounds_parse prefs"
  by (induction prefs)
     (auto simp: bounds_parse_def split: sum.splits if_splits dest: relax_violates_Inl)

lemma strategy_duration_adjust_no_error: "strategy_duration_adjust a st slots prefs \<noteq> Inl e"
  by (auto simp: strategy_duration_adjust_def Let_def model_copy_deep_def first_item_Inl_iff py_min_Inl_iff
      split: sum.splits prod.splits)

lemma strategy_time_shift_Inl:
  "strategy_time_shift a st slots prefs = Inl e \<Longrightarrow> e = ValueError \<and> \<not> bounds_parse prefs"
  by (auto simp: strategy_time_shift_def Let_def model_copy_deep_def first_item_Inl_iff
      split: sum.splits prod.splits if_splits dest!: filter_raising_Inl ok_Inl)

lemma strategy_alternative_day_no_error: "strategy_alternative_day a st slots prefs cals \<noteq> Inl e"
  by (auto simp: strategy_alternative_day_def Let_def model_copy_deep_def
      split: sum.splits prod.splits option.splits)

lemma strategy_relax_hours_Inl:
  "strategy_relax_hours a st slots prefs = Inl e \<Longrightarrow> e = ValueError \<and> \<not> bounds_parse prefs"
  by (auto simp: strategy_relax_hours_def Let_def model_copy_deep_def first_item_Inl_iff
      split: sum.splits prod.splits if_splits dest!: filter_raising_Inl allowed_Inl)

lemma strategy_duration_adjust_tag:
  "strategy_duration_adjust a st slots prefs = Inr (Some r, st') \<Longrightarrow>
   strategy_choose r = DURATION_ADJUSTMENT \<and> outcome r = COMPROMISE_PROPOSED"
  by (auto simp: strategy_duration_adjust_def Let_def model_copy_deep_def
      split: sum.splits prod.splits if_splits)

lemma strategy_time_shift_tag:
  "strategy_time_shift a st slots prefs = Inr (Some r, st') \<Longrightarrow>
   strategy_choose r = TOD_SHIFTING \<and> outcome r = COMPROMISE_PROPOSED"
  by (auto simp: strategy_time_shift_def Let_def model_copy_deep_def
      split: sum.splits prod.splits if_splits)

lemma strategy_alternative_day_tag:
  "strategy_alternative_day a st slots prefs cals = Inr (Some r, st') \<Longrightarrow>
   strategy_choose r = ALTERNATIVE_DAY \<and> outcome r = COMPROMISE_PROPOSED"
  by (auto simp: strategy_alternative_day_def Let_def model_copy_deep_def
      split: sum.splits prod.splits if_splits option.splits)

lemma strategy_relax_hours_tag:
  "strategy_relax_hours a st slots prefs = Inr (Some r, st') \<Longrightarrow>
   strategy_choose r = RELAX_CONSTRAINTS \<and> outcome r = COMPROMISE_PROPOSED"
  by (auto simp: strategy_relax_hours_def Let_def model_copy_deep_def
      split: sum.splits prod.splits if_splits)

lemma strategy_value_eq_iff:
  "strategy_value s = 0 \<longleftrightarrow> s = NONE"
  "strategy_value s = Suc 0 \<longleftrightarrow> s = DURATION_ADJUSTMENT"
  "strategy_value s = 2 \<longleftrightarrow> s = TOD_SHIFTING"
  "strategy_value s = 3 \<longleftrightarrow> s = ALTERNATIVE_DAY"
  "strategy_value s = 4 \<longleftrightarrow> s = RELAX_CONSTRAINTS"
  by (cases s; simp)+

lemma strategy_value_le_4: "strategy_value s \<le> 4"
  by (cases s) simp_all

lemma strategy_value_inj [simp]: "strategy_value a = strategy_value b \<longleftrightarrow> a = b"
  by (cases a; cases b; simp)

lemma strategy_value_pos: "s \<noteq> NONE \<Longrightarrow> Suc 0 \<le> strategy_value s"
  by (cases s) simp_all

lemma ladder_inv_tried:
  assumes "ladder_inv (strategy_value s) prev tr" "s \<noteq> NONE"
    "strategy_value prev < strategy_value s \<or> 3 \<le> strategy_value prev"
  shows "ladder_inv (Suc (strategy_value s)) prev (tr @ [(s, False)])"
  using assms unfolding ladder_inv_def
  by (auto simp: sorted_wrt_append less_Suc_eq strategy_value_pos)

lemma ladder_inv_skipped:
  assumes "ladder_inv (strategy_value s) prev tr" "strategy_value s \<le> strategy_value prev"
  shows "ladder_inv (Suc (strategy_value s)) prev tr"
  using assms unfolding ladder_inv_def
  by (auto simp: less_Suc_eq)

lemma ladder_post_impossible:
  assumes "ladder_inv k prev tr"
  shows "declare_impossible st tr = Inr r \<Longrightarrow> ladder_post prev r"
  using assms unfolding ladder_inv_def ladder_post_def declare_impossible_def by auto

lemma ladder_post_success:
  assumes "ladder_inv (strategy_value s) prev tr" "s \<noteq> NONE"
    "strategy_value prev < strategy_value s \<or> 3 \<le> strategy_value prev"
    "strategy_choose x = s" "outcome x = COMPROMISE_PROPOSED"
  shows "ladder_post prev \<lparr>result = x, store_after = st, tried = tr @ [(s, True)]\<rparr>"
  using assms unfolding ladder_inv_def ladder_post_def
  by (auto simp: sorted_wrt_append strategy_value_pos)

lemma ladder_block:
  assumes inv: "ladder_inv (strategy_value s) prev tr" and s: "s \<noteq> NONE"
    and cond_tried: "cond \<Longrightarrow> strategy_value prev < strategy_value s \<or> 3 \<le> strategy_value prev"
    and cond_skipped: "\<not> cond \<Longrightarrow> strategy_value s \<le> strategy_value prev"
    and tag: "\<And>x st'. strat = Inr (Some x, st') \<Longrightarrow>
                strategy_choose x = s \<and> outcome x = COMPROMISE_PROPOSED"
    and nxt: "\<And>st' tr'. ladder_inv (Suc (strategy_value s)) prev tr' \<Longrightarrow>
                next_block st' tr' = Inr r \<Longrightarrow> ladder_post prev r"
    and run: "(if cond then
                 case strat of
                   Inl e \<Rightarrow> Inl e
                 | Inr (Some x, st') \<Rightarrow>
                     Inr \<lparr>result = x, store_after = st', tried = tr @ [(s, True)]\<rparr>
                 | Inr (None, st') \<Rightarrow> next_block st' (tr @ [(s, False)])
               else next_block st tr) = Inr r"
  shows "ladder_post prev r"
proof (cases cond)
  case True
  note el = cond_tried[OF True]
  show ?thesis
  proof (cases strat)
    case (Inl e)
    with True run show ?thesis by simp
  next
    case (Inr p)
    obtain x st' where p: "p = (x, st')" by (cases p)
    show ?thesis
    proof (cases x)
      case None
      with Inr p True run have "next_block st' (tr @ [(s, False)]) = Inr r" by simp
      then show ?thesis by (rule nxt[OF ladder_inv_tried[OF inv s el]])
    next
      case (Some y)
      with Inr p True run
      have r: "r = \<lparr>result = y, store_after = st', tried = tr @ [(s, True)]\<rparr>" by simp
      from Some Inr p have "strategy_choose y = s \<and> outcome y = COMPROMISE_PROPOSED"
        using tag by blast
      then show ?thesis unfolding r using ladder_post_success[OF inv s el] by simp
    qed
  qed
next
  case False
  with run have "next_block st tr = Inr r" by simp
  then show ?thesis by (rule nxt[OF ladder_inv_skipped[OF inv cond_skipped[OF False]]])
qed

lemma try_relax_constraints_post:
  assumes "ladder_inv 4 prev tr"
    and "try_relax_constraints a st tr slots prefs prev = Inr r"
  shows "ladder_post prev r"
proof (rule ladder_block[where s = RELAX_CONSTRAINTS and tr = tr and st = st
        and cond = "strategy_value prev < strategy_value RELAX_CONSTRAINTS"
        and strat = "strategy_relax_hours a st slots prefs"
        and next_block = declare_impossible])
  show "ladder_inv (strategy_value RELAX_CONSTRAINTS) prev tr" using assms(1) by simp
  show "ladder_post prev r"
    if "ladder_inv (Suc (strategy_value RELAX_CONSTRAINTS)) prev tr'"
      "declare_impossible st' tr' = Inr r" for st' tr'
    using that by (rule ladder_post_impossible)
  show "strategy_choose x = RELAX_CONSTRAINTS \<and> outcome x = COMPROMISE_PROPOSED"
    if "strategy_relax_hours a st slots prefs = Inr (Some x, st')" for x st'
    using that by (rule strategy_relax_hours_tag)
  show "(if strategy_value prev < strategy_value RELAX_CONSTRAINTS
         then case strategy_relax_hours a st slots prefs of
                Inl e \<Rightarrow> Inl e
              | Inr (Some x, st') \<Rightarrow>
                  Inr \<lparr>result = x, store_after = st', tried = tr @ [(RELAX_CONSTRAINTS, True)]\<rparr>
              | Inr (None, st') \<Rightarrow> declare_impossible st' (tr @ [(RELAX_CONSTRAINTS, False)])
         else declare_impossible st tr) = Inr r"
    using assms(2) by (simp add: try_relax_constraints_def)
qed simp_all

lemma try_alternative_day_post:
  assumes "ladder_inv 3 prev tr"
    and "try_alternative_day a st tr slots prefs cals prev = Inr r"
  shows "ladder_post prev r"
proof (rule ladder_block[where s = ALTERNATIVE_DAY and tr = tr and st = st
        and cond = "strategy_value prev < strategy_value ALTERNATIVE_DAY"
        and strat = "strategy_alternative_day a st slots prefs cals"
        and next_block = "\<lambda>st' tr'. try_relax_constraints a st' tr' slots prefs prev"])
  show "ladder_inv (strategy_value ALTERNATIVE_DAY) prev tr" using assms(1) by simp
  show "ladder_post prev r"
    if "ladder_inv (Suc (strategy_value ALTERNATIVE_DAY)) prev tr'"
      "try_relax_constraints a st' tr' slots prefs prev = Inr r" for st' tr'
    using that by (auto intro: try_relax_constraints_post simp: eval_nat_numeral)
  show "strategy_choose x = ALTERNATIVE_DAY \<and> outcome x = COMPROMISE_PROPOSED"
    if "strategy_alternative_day a st slots prefs cals = Inr (Some x, st')" for x st'
    using that by (rule strategy_alternative_day_tag)
  show "(if strategy_value prev < strategy_value ALTERNATIVE_DAY
         then case strategy_alternative_day a st slots prefs cals of
                Inl e \<Rightarrow> Inl e
              | Inr (Some x, st') \<Rightarrow>
                  Inr \<lparr>result = x, store_after = st', tried = tr @ [(ALTERNATIVE_DAY, True)]\<rparr>
              | Inr (None, st') \<Rightarrow>
                  try_relax_constraints a st' (tr @ [(ALTERNATIVE_DAY, False)]) slots prefs prev
         else try_relax_constraints a st tr slots prefs prev) = Inr r"
    using assms(2) by (simp add: try_alternative_day_def)
qed simp_all

lemma try_time_of_day_shifting_post:
  assumes "ladder_inv 2 prev tr"
    and "try_time_of_day_shifting a st tr slots prefs cals prev = Inr r"
  shows "ladder_post prev r"
proof (rule ladder_block[where s = TOD_SHIFTING and tr = tr and st = st
        and cond = "strategy_value prev < strategy_value TOD_SHIFTING
                    \<or> strategy_value prev \<ge> strategy_value ALTERNATIVE_DAY"
        and strat = "strategy_time_shift a st slots prefs"
        and next_block = "\<lambda>st' tr'. try_alternative_day a st' tr' slots prefs cals prev"])
  show "ladder_inv (strategy_value TOD_SHIFTING) prev tr" using assms(1) by simp
  show "ladder_post prev r"
    if "ladder_inv (Suc (strategy_value TOD_SHIFTING)) prev tr'"
      "try_alternative_day a st' tr' slots prefs cals prev = Inr r" for st' tr'
    using that by (auto intro: try_alternative_day_post simp: eval_nat_numeral)
  show "strategy_choose x = TOD_SHIFTING \<and> outcome x = COMPROMISE_PROPOSED"
    if "strategy_time_shift a st slots prefs = Inr (Some x, st')" for x st'
    using that by (rule strategy_time_shift_tag)
  show "(if strategy_value prev < strategy_value TOD_SHIFTING
            \<or> strategy_value prev \<ge> strategy_value ALTERNATIVE_DAY
         then case strategy_time_shift a st slots prefs of
                Inl e \<Rightarrow> Inl e
              | Inr (Some x, st') \<Rightarrow>
                  Inr \<lparr>result = x, store_after = st', tried = tr @ [(TOD_SHIFTING, True)]\<rparr>
              | Inr (None, st') \<Rightarrow>
                  try_alternative_day a st' (tr @ [(TOD_SHIFTING, False)]) slots prefs cals prev
         else try_alternative_day a st tr slots prefs cals prev) = Inr r"
    using assms(2) by (simp add: try_time_of_day_shifting_def)
qed auto

lemma try_duration_adjustment_post:
  assumes "ladder_inv 1 prev tr"
    and "try_duration_adjustment a st tr slots prefs cals prev = Inr r"
  shows "ladder_post prev r"
proof (rule ladder_block[where s = DURATION_ADJUSTMENT and tr = tr and st = st
        and cond = "strategy_value prev < strategy_value DURATION_ADJUSTMENT
                    \<or> strategy_value prev \<ge> strategy_value ALTERNATIVE_DAY"
        and strat = "strategy_duration_adjust a st slots prefs"
        and next_block = "\<lambda>st' tr'. try_time_of_day_shifting a st' tr' slots prefs cals prev"])
  show "ladder_inv (strategy_value DURATION_ADJUSTMENT) prev tr" using assms(1) by simp
  show "ladder_post prev r"
    if "ladder_inv (Suc (strategy_value DURATION_ADJUSTMENT)) prev tr'"
      "try_time_of_day_shifting a st' tr' slots prefs cals prev = Inr r" for st' tr'
    using that by (auto intro: try_time_of_day_shifting_post simp: eval_nat_numeral)
  show "strategy_choose x = DURATION_ADJUSTMENT \<and> outcome x = COMPROMISE_PROPOSED"
    if "strategy_duration_adjust a st slots prefs = Inr (Some x, st')" for x st'
    using that by (rule strategy_duration_adjust_tag)
  show "(if strategy_value prev < strategy_value DURATION_ADJUSTMENT
            \<or> strategy_value prev \<ge> strategy_value ALTERNATIVE_DAY
         then case strategy_duration_adjust a st slots prefs of
                Inl e \<Rightarrow> Inl e
              | Inr (Some x, st') \<Rightarrow>
                  Inr \<lparr>result = x, store_after = st', tried = tr @ [(DURATION_ADJUSTMENT, True)]\<rparr>
              | Inr (None, st') \<Rightarrow>
                  try_time_of_day_shifting a st' (tr @ [(DURATION_ADJUSTMENT, False)]) slots prefs
                    cals prev
         else try_time_of_day_shifting a st tr slots prefs cals prev) = Inr r"
    using assms(2) by (simp add: try_duration_adjustment_def)
qed auto

lemma ladder_inv_start: "ladder_inv 1 prev []"
  by (auto simp: ladder_inv_def dest: strategy_value_pos)

lemma try_relax_constraints_Inl:
  "try_relax_constraints a st tr slots prefs prev = Inl e \<Longrightarrow>
   e = ValueError \<and> \<not> bounds_parse prefs"
  by (auto simp: try_relax_constraints_def declare_impossible_def
      split: sum.splits option.splits prod.splits if_splits dest: strategy_relax_hours_Inl)

lemma try_alternative_day_Inl:
  "try_alternative_day a st tr slots prefs cals prev = Inl e \<Longrightarrow>
   e = ValueError \<and> \<not> bounds_parse prefs"
  by (auto simp: try_alternative_day_def strategy_alternative_day_no_error
      split: sum.splits option.splits prod.splits if_splits dest: try_relax_constraints_Inl)

lemma try_time_of_day_shifting_Inl:
  "try_time_of_day_shifting a st tr slots prefs cals prev = Inl e \<Longrightarrow>
   e = ValueError \<and> \<not> bounds_parse prefs"
  by (auto simp: try_time_of_day_shifting_def
      split: sum.splits option.splits prod.splits if_splits
      dest: try_alternative_day_Inl strategy_time_shift_Inl)

lemma try_duration_adjustment_Inl:
  "try_duration_adjustment a st tr slots prefs cals prev = Inl e \<Longrightarrow>
   e = ValueError \<and> \<not> bounds_parse prefs"
  by (auto simp: try_duration_adjustment_def strategy_duration_adjust_no_error
      split: sum.splits option.splits prod.splits if_splits
      dest: try_time_of_day_shifting_Inl)

lemma negotiate_schedule_Inl:
  "negotiate_schedule a st slots ps ms prev = Inl e \<Longrightarrow>
   e = ValueError \<and> \<not> bounds_parse (prefs_of ps)"
  by (auto simp: negotiate_schedule_def Let_def first_item_Inl_iff
      split: sum.splits if_splits
      dest!: filter_raising_Inl slot_respects_all_Inl try_duration_adjustment_Inl)

lemma negotiate_schedule_returns:
  "bounds_parse (prefs_of ps) \<Longrightarrow> \<exists>r. negotiate_schedule a st slots ps ms prev = Inr r"
  using negotiate_schedule_Inl[of a st slots ps ms prev]
  by (cases "negotiate_schedule a st slots ps ms prev") auto

lemma negotiate_schedule_ladder:
  assumes "filter_raising (\<lambda>s. slot_respects_all s (prefs_of ps) (calendars_of ps)) slots = Inr []"
    and "negotiate_schedule a st slots ps ms prev = Inr r"
  shows "ladder_post prev r"
proof -
  from assms have "try_duration_adjustment a st [] slots (prefs_of ps) (calendars_of ps) prev = Inr r"
    by (simp add: negotiate_schedule_def Let_def)
  then show ?thesis by (rule try_duration_adjustment_post[OF ladder_inv_start])
qed

lemma hd_sort_by_confidence_max:
  assumes "xs \<noteq> []" "s \<in> set xs"
  shows "confidence s \<le> confidence (hd (sort_by_confidence xs))"
proof -
  let ?ys = "sort_key (\<lambda>s. - confidence s) xs"
  have ne: "?ys \<noteq> []" using assms(1) by (metis length_sort length_0_conv)
  have srt: "sorted (map (\<lambda>s. - confidence s) ?ys)" by (rule sorted_sort_key)
  have mem: "s \<in> set ?ys" using assms(2) by simp
  obtain y ys where ys: "?ys = y # ys" using ne by (cases ?ys) auto
  with srt mem have "- confidence y \<le> - confidence s" by auto
  with ys show ?thesis by (simp add: sort_by_confidence_def)
qed

lemma hd_sort_by_confidence_mem:
  assumes "xs \<noteq> []"
  shows "hd (sort_by_confidence xs) \<in> set xs"
proof -
  have "sort_by_confidence xs \<noteq> []" using assms by simp
  then have "hd (sort_by_confidence xs) \<in> set (sort_by_confidence xs)" by (rule hd_in_set)
  then show ?thesis by (simp add: sort_by_confidence_def)
qed

lemmas example_defs = monday_def example_schedule_def no_preferences_def slot_at_def participant_def
  datetime_of_def time_of_def timedelta_minutes_def timedelta_days_def weekday_def time_part_def
  hour_def midnight_def lunch_def truthy_bool_def truthy_nat_def

lemmas negotiation_defs = negotiate_schedule_def try_duration_adjustment_def
  try_time_of_day_shifting_def try_alternative_day_def try_relax_constraints_def
  declare_impossible_def strategy_duration_adjust_def strategy_time_shift_def
  strategy_alternative_day_def strategy_relax_hours_def prefs_of_def calendars_of_def
  slot_violates_def time_shift_violates_def relax_violates_def before_bound_def after_bound_def
  sort_by_confidence_def
  model_copy_deep_def set_default_duration_def set_schedule_day_def set_working_hours_start_def
  set_working_hours_end_def calendars_get_def meetings_on_def days_to_try_def Let_def

section \<open>The strategy ladder\<close>



section \<open>The strict filter path\<close>

lemma hd_sort_by_confidence_first:
  assumes "xs \<noteq> []"
  shows "hd (sort_by_confidence xs)
         = hd (filter (\<lambda>s. confidence s = confidence (hd (sort_by_confidence xs))) xs)"
proof -
  let ?f = "\<lambda>s. - confidence s"
  let ?ys = "sort_key ?f xs"
  let ?b = "hd ?ys"
  have ne: "?ys \<noteq> []" using assms by (metis length_sort length_0_conv)
  have "filter (\<lambda>y. ?f y = ?f ?b) ?ys = filter (\<lambda>y. ?f y = ?f ?b) xs"
    by (rule sort_key_stable)
  moreover have "hd (filter (\<lambda>y. ?f y = ?f ?b) ?ys) = ?b"
    using ne by (cases ?ys) auto
  ultimately have "hd (filter (\<lambda>y. ?f y = ?f ?b) xs) = ?b" by simp
  then show ?thesis by (simp add: sort_by_confidence_def)
qed

text \<open>
  C4. When the strict filter returns its survivors \<open>ok_slots\<close>, the input slots for which
  \<^verbatim>\<open>_slot_respects_all\<close> returns \<^verbatim>\<open>True\<close>, and there is at least one, \<^verbatim>\<open>negotiate_schedule\<close>
  selects a survivor of the strict filter whose confidence no survivor exceeds (among
  equals, the first in input order); the outcome is \<^verbatim>\<open>OPTIMAL_FOUND\<close> when that confidence is
  at least \<^verbatim>\<open>min_score\<close> and \<^verbatim>\<open>COMPROMISE_PROPOSED\<close> otherwise; the alternatives are the next
  survivors in descending order of confidence, two at most; the schedule is
  \<^verbatim>\<open>self.initial\<close>; and the result is returned with no relaxation strategy called and the
  store as it was.
\<close>

theorem strict_survivor_selected:
  assumes "filter_raising (\<lambda>s. slot_respects_all s (prefs_of participants_data)
                                  (calendars_of participants_data)) available_slots = Inr ok_slots"
    and "ok_slots \<noteq> []"
  shows "\<exists>r best. negotiate_schedule self_initial st available_slots participants_data min_score
               previous_strategy = Inr r
     \<and> ok_slots = filter (\<lambda>s. slot_respects_all s (prefs_of participants_data)
                                  (calendars_of participants_data) = Inr True) available_slots
     \<and> selected_slot (result r) = Some best
     \<and> best \<in> set ok_slots
     \<and> (\<forall>s \<in> set ok_slots. confidence s \<le> confidence best)
     \<and> best = hd (filter (\<lambda>s. confidence s = confidence best) ok_slots)
     \<and> outcome (result r) = (if confidence best \<ge> min_score then OPTIMAL_FOUND
                              else COMPROMISE_PROPOSED)
     \<and> length (alternative_suggestions (result r)) \<le> 2
     \<and> best # alternative_suggestions (result r) = take 3 (sort_by_confidence ok_slots)
     \<and> set (alternative_suggestions (result r)) \<subseteq> set ok_slots
     \<and> proposed_schedule (result r) = Some self_initial
     \<and> strategy_choose (result r) = NONE
     \<and> tried r = []
     \<and> store_after r = st"
proof -
  let ?sorted = "sort_by_confidence ok_slots"
  let ?best = "hd ?sorted"
  let ?alts = "take 2 (drop 1 ?sorted)"
  let ?r = "\<lparr>result = \<lparr>outcome = (if confidence ?best \<ge> min_score then OPTIMAL_FOUND
                                     else COMPROMISE_PROPOSED),
                         proposed_schedule = Some self_initial,
                         selected_slot = Some ?best,
                         reasoning = Found_compliant_slot,
                         alternative_suggestions = ?alts,
                         strategy_choose = NONE\<rparr>,
              store_after = st, tried = []\<rparr>"
  have ne: "?sorted \<noteq> []" using assms(2) by simp
  then have fi: "first_item ?sorted = Inr ?best" by (simp add: first_item_Inr_iff)
  have run: "negotiate_schedule self_initial st available_slots participants_data min_score
               previous_strategy = Inr ?r"
    using assms fi by (simp add: negotiate_schedule_def Let_def)
  have survivors: "ok_slots = filter (\<lambda>s. slot_respects_all s (prefs_of participants_data)
                                  (calendars_of participants_data) = Inr True) available_slots"
    using assms(1) by (simp add: filter_raising_Inr_iff)
  have mem: "?best \<in> set ok_slots" using assms(2) by (rule hd_sort_by_confidence_mem)
  have mx: "\<forall>s \<in> set ok_slots. confidence s \<le> confidence ?best"
    using assms(2) by (simp add: hd_sort_by_confidence_max)
  have first: "?best = hd (filter (\<lambda>s. confidence s = confidence ?best) ok_slots)"
    using assms(2) by (rule hd_sort_by_confidence_first)
  obtain y ys where ys: "?sorted = y # ys" using ne by (cases ?sorted) auto
  have three: "?best # ?alts = take 3 ?sorted"
    using ys by (simp add: numeral_3_eq_3 numeral_2_eq_2)
  have sub: "set ?alts \<subseteq> set ok_slots"
  proof -
    have "set ?alts \<subseteq> set ?sorted" by (meson set_take_subset set_drop_subset subset_trans)
    then show ?thesis by (simp add: sort_by_confidence_def)
  qed
  from run survivors mem mx first three sub show ?thesis by auto
qed

theorem strict_survivor_selected_witness:
  "[slot_at (datetime_of monday 9 0) (datetime_of monday 10 0) 60 (1/2),
    slot_at (datetime_of monday 10 0) (datetime_of monday 11 0) 60 (4/5),
    slot_at (datetime_of monday 14 0) (datetime_of monday 15 0) 60 (7/10),
    slot_at (datetime_of monday 15 0) (datetime_of monday 16 0) 60 (3/5)]
   \<noteq> []
   \<and> filter_raising (\<lambda>s. slot_respects_all s (prefs_of [participant ''alice'' no_preferences])
                     (calendars_of [participant ''alice'' no_preferences]))
       [slot_at (datetime_of monday 9 0) (datetime_of monday 10 0) 60 (1/2),
        slot_at (datetime_of monday 10 0) (datetime_of monday 11 0) 60 (4/5),
        slot_at (datetime_of monday 14 0) (datetime_of monday 15 0) 60 (7/10),
        slot_at (datetime_of monday 15 0) (datetime_of monday 16 0) 60 (3/5)]
     = Inr [slot_at (datetime_of monday 9 0) (datetime_of monday 10 0) 60 (1/2),
            slot_at (datetime_of monday 10 0) (datetime_of monday 11 0) 60 (4/5),
            slot_at (datetime_of monday 14 0) (datetime_of monday 15 0) 60 (7/10),
            slot_at (datetime_of monday 15 0) (datetime_of monday 16 0) 60 (3/5)]
   \<and> (\<exists>r. negotiate_schedule 0 [example_schedule]
         [slot_at (datetime_of monday 9 0) (datetime_of monday 10 0) 60 (1/2),
          slot_at (datetime_of monday 10 0) (datetime_of monday 11 0) 60 (4/5),
          slot_at (datetime_of monday 14 0) (datetime_of monday 15 0) 60 (7/10),
          slot_at (datetime_of monday 15 0) (datetime_of monday 16 0) 60 (3/5)]
         [participant ''alice'' no_preferences] (3/5) NONE = Inr r
       \<and> selected_slot (result r)
           = Some (slot_at (datetime_of monday 10 0) (datetime_of monday 11 0) 60 (4/5))
       \<and> outcome (result r) = OPTIMAL_FOUND
       \<and> alternative_suggestions (result r)
           = [slot_at (datetime_of monday 14 0) (datetime_of monday 15 0) 60 (7/10),
              slot_at (datetime_of monday 15 0) (datetime_of monday 16 0) 60 (3/5)]
       \<and> tried r = [])"
proof -
  let ?slots = "[slot_at (datetime_of monday 9 0) (datetime_of monday 10 0) 60 (1/2),
    slot_at (datetime_of monday 10 0) (datetime_of monday 11 0) 60 (4/5),
    slot_at (datetime_of monday 14 0) (datetime_of monday 15 0) 60 (7/10),
    slot_at (datetime_of monday 15 0) (datetime_of monday 16 0) 60 (3/5)]"
  have h: "filter_raising (\<lambda>s. slot_respects_all s (prefs_of [participant ''alice'' no_preferences])
                     (calendars_of [participant ''alice'' no_preferences])) ?slots = Inr ?slots"
    by (simp add: example_defs negotiation_defs)
  have ne: "?slots \<noteq> []" by simp
  from strict_survivor_selected[OF h ne, of 0 "[example_schedule]" "3/5" NONE]
  obtain r where r: "negotiate_schedule 0 [example_schedule] ?slots
         [participant ''alice'' no_preferences] (3/5) NONE = Inr r" and "tried r = []"
    by blast
  from r have "selected_slot (result r)
           = Some (slot_at (datetime_of monday 10 0) (datetime_of monday 11 0) 60 (4/5))
       \<and> outcome (result r) = OPTIMAL_FOUND
       \<and> alternative_suggestions (result r)
           = [slot_at (datetime_of monday 14 0) (datetime_of monday 15 0) 60 (7/10),
              slot_at (datetime_of monday 15 0) (datetime_of monday 16 0) 60 (3/5)]"
    by (auto simp add: example_defs negotiation_defs)
  with h ne r \<open>tried r = []\<close> show ?thesis by blast
qed

section \<open>Exhausting the ladder, and the exception of a time bound\<close>

text \<open>
  When \<^verbatim>\<open>time.fromisoformat\<close> parses every time bound of the participants,
  \<^verbatim>\<open>negotiate_schedule\<close> returns a result; and when no slot passes the strict filter and
  every strategy it called returned nothing, the result has the outcome \<^verbatim>\<open>IMPOSSIBLE\<close>, no
  schedule, no slot and no alternative. The reads \<^verbatim>\<open>xs[0]\<close> and \<^verbatim>\<open>min(caps)\<close> are never
  reached with an empty list: Duration Adjustment and Alternative Day return for every
  input, and the two other strategies return whenever the bounds parse.
\<close>

lemma exhausted_ladder_is_impossible:
  assumes "bounds_parse (prefs_of participants_data)"
  shows "\<exists>r. negotiate_schedule self_initial st available_slots participants_data min_score
          previous_strategy = Inr r
       \<and> (filter_raising (\<lambda>s. slot_respects_all s (prefs_of participants_data)
                         (calendars_of participants_data)) available_slots = Inr []
            \<and> (\<forall>t \<in> set (tried r). \<not> snd t)
          \<longrightarrow> outcome (result r) = IMPOSSIBLE \<and> proposed_schedule (result r) = None
              \<and> selected_slot (result r) = None \<and> alternative_suggestions (result r) = [])"
proof -
  obtain r where r: "negotiate_schedule self_initial st available_slots participants_data
                       min_score previous_strategy = Inr r"
    using negotiate_schedule_returns[OF assms] by blast
  have "outcome (result r) = IMPOSSIBLE \<and> proposed_schedule (result r) = None
              \<and> selected_slot (result r) = None \<and> alternative_suggestions (result r) = []"
    if ns: "filter_raising (\<lambda>s. slot_respects_all s (prefs_of participants_data)
                         (calendars_of participants_data)) available_slots = Inr []"
      and fl: "\<forall>t \<in> set (tried r). \<not> snd t"
  proof -
    have "ladder_post previous_strategy r" using ns r by (rule negotiate_schedule_ladder)
    with fl show ?thesis unfolding ladder_post_def by auto
  qed
  with r show ?thesis by blast
qed

lemma strategies_return:
  "(\<exists>x st'. strategy_duration_adjust self_initial st available_slots prefs = Inr (x, st'))
   \<and> (\<exists>x st'. strategy_alternative_day self_initial st available_slots prefs calendars
                = Inr (x, st'))
   \<and> (bounds_parse prefs \<longrightarrow>
        (\<exists>x st'. strategy_time_shift self_initial st available_slots prefs = Inr (x, st'))
        \<and> (\<exists>x st'. strategy_relax_hours self_initial st available_slots prefs = Inr (x, st')))"
proof -
  have "\<exists>x st'. strategy_duration_adjust self_initial st available_slots prefs = Inr (x, st')"
    using strategy_duration_adjust_no_error[of self_initial st available_slots prefs]
    by (cases "strategy_duration_adjust self_initial st available_slots prefs") auto
  moreover have "\<exists>x st'. strategy_alternative_day self_initial st available_slots prefs calendars
                = Inr (x, st')"
    using strategy_alternative_day_no_error[of self_initial st available_slots prefs calendars]
    by (cases "strategy_alternative_day self_initial st available_slots prefs calendars") auto
  moreover have "\<exists>x st'. strategy_time_shift self_initial st available_slots prefs = Inr (x, st')"
    if "bounds_parse prefs"
    using strategy_time_shift_Inl[of self_initial st available_slots prefs] that
    by (cases "strategy_time_shift self_initial st available_slots prefs") auto
  moreover have "\<exists>x st'. strategy_relax_hours self_initial st available_slots prefs = Inr (x, st')"
    if "bounds_parse prefs"
    using strategy_relax_hours_Inl[of self_initial st available_slots prefs] that
    by (cases "strategy_relax_hours self_initial st available_slots prefs") auto
  ultimately show ?thesis by blast
qed

text \<open>
  C7, at two inputs. The validator of \<^verbatim>\<open>ParticipantPreferences\<close> accepts the bound
  \<^verbatim>\<open>no_meetings_before='9:30'\<close> and keeps it as it is, and \<^verbatim>\<open>no_before()\<close> raises
  \<^verbatim>\<open>ValueError\<close> on it. With Dana alone and one slot from 10:00 to 11:00, the strict filter
  raises and so does \<^verbatim>\<open>negotiate_schedule\<close>. With Alice, who prefers mornings, before Dana
  and one slot from 14:00 to 15:00, the strict filter returns no slot (Alice rejects the
  slot before Dana's bound is read), Duration Adjustment returns nothing, and Time-of-Day
  Shifting, which ignores Alice's preference and reads Dana's bound, raises: the absence
  of a workable slot ends in an exception, where a result or the next strategy was due.
  The soft score, which reads the hour of the same bound with \<^verbatim>\<open>split(':')\<close>, handles it;
  and with the bound written \<^verbatim>\<open>'09:30'\<close> the same call returns a result.
\<close>

theorem negotiate_schedule_raises_on_accepted_bound:
  "negotiate_schedule 0 [example_schedule]
      [slot_at (datetime_of monday 10 0) (datetime_of monday 11 0) 60 (7/10)]
      [participant ''dana'' (no_preferences\<lparr>no_meetings_before := Some (H_MM 9 30)\<rparr>)]
      (3/5) NONE = Inl ValueError
   \<and> filter_raising (\<lambda>s. slot_respects_all s
        (prefs_of [participant ''alice'' (no_preferences\<lparr>prefer_morning := Some True\<rparr>),
                   participant ''dana'' (no_preferences\<lparr>no_meetings_before := Some (H_MM 9 30)\<rparr>)])
        (calendars_of [participant ''alice'' (no_preferences\<lparr>prefer_morning := Some True\<rparr>),
                   participant ''dana'' (no_preferences\<lparr>no_meetings_before := Some (H_MM 9 30)\<rparr>)]))
      [slot_at (datetime_of monday 14 0) (datetime_of monday 15 0) 60 (7/10)] = Inr []
   \<and> strategy_duration_adjust 0 [example_schedule]
        [slot_at (datetime_of monday 14 0) (datetime_of monday 15 0) 60 (7/10)]
        (prefs_of [participant ''alice'' (no_preferences\<lparr>prefer_morning := Some True\<rparr>),
                   participant ''dana'' (no_preferences\<lparr>no_meetings_before := Some (H_MM 9 30)\<rparr>)])
      = Inr (None, [example_schedule])
   \<and> strategy_time_shift 0 [example_schedule]
        [slot_at (datetime_of monday 14 0) (datetime_of monday 15 0) 60 (7/10)]
        (prefs_of [participant ''alice'' (no_preferences\<lparr>prefer_morning := Some True\<rparr>),
                   participant ''dana'' (no_preferences\<lparr>no_meetings_before := Some (H_MM 9 30)\<rparr>)])
      = Inl ValueError
   \<and> negotiate_schedule 0 [example_schedule]
      [slot_at (datetime_of monday 14 0) (datetime_of monday 15 0) 60 (7/10)]
      [participant ''alice'' (no_preferences\<lparr>prefer_morning := Some True\<rparr>),
       participant ''dana'' (no_preferences\<lparr>no_meetings_before := Some (H_MM 9 30)\<rparr>)]
      (3/5) NONE = Inl ValueError
   \<and> rule_no_meetings_before ''dana'' (no_preferences\<lparr>no_meetings_before := Some (H_MM 9 30)\<rparr>)
        (datetime_of monday 10 0) (1, [])
      = (1, [Respects_no_meetings_before ''dana'' (H_MM 9 30)])
   \<and> (\<exists>r. negotiate_schedule 0 [example_schedule]
        [slot_at (datetime_of monday 10 0) (datetime_of monday 11 0) 60 (7/10)]
        [participant ''dana'' (no_preferences\<lparr>no_meetings_before := Some (HH_MM 9 30)\<rparr>)]
        (3/5) NONE = Inr r
      \<and> outcome (result r) = OPTIMAL_FOUND
      \<and> selected_slot (result r)
          = Some (slot_at (datetime_of monday 10 0) (datetime_of monday 11 0) 60 (7/10)))"
  by (simp add: example_defs negotiation_defs rule_no_meetings_before_def)

section \<open>Schedules are copied, never changed in place\<close>

lemma strategy_duration_adjust_frame:
  assumes "self_initial < length st"
    and "strategy_duration_adjust self_initial st slots prefs = Inr (x, st')"
  shows "take (length st) st' = st
     \<and> (\<forall>r. x = Some r \<longrightarrow>
           proposed_schedule r = Some (length st) \<and> length st' = Suc (length st)
           \<and> st' ! length st
               = (st ! self_initial)\<lparr>default_duration := default_duration (st' ! length st)\<rparr>)"
  using assms
  by (auto simp: strategy_duration_adjust_def Let_def model_copy_deep_def set_default_duration_def
      split: sum.splits if_splits)

lemma strategy_time_shift_frame:
  assumes "self_initial < length st"
    and "strategy_time_shift self_initial st slots prefs = Inr (x, st')"
  shows "take (length st) st' = st
     \<and> (\<forall>r. x = Some r \<longrightarrow>
           proposed_schedule r = Some (length st) \<and> length st' = Suc (length st)
           \<and> st' ! length st
               = (st ! self_initial)\<lparr>schedule_day := schedule_day (st' ! length st)\<rparr>)"
  using assms
  by (auto simp: strategy_time_shift_def Let_def model_copy_deep_def set_schedule_day_def
      split: sum.splits if_splits)

lemma strategy_alternative_day_frame:
  assumes "self_initial < length st"
    and "strategy_alternative_day self_initial st slots prefs calendars = Inr (x, st')"
  shows "take (length st) st' = st
     \<and> (\<forall>r. x = Some r \<longrightarrow>
           proposed_schedule r = Some (length st) \<and> length st' = Suc (length st)
           \<and> st' ! length st
               = (st ! self_initial)\<lparr>schedule_day := schedule_day (st' ! length st)\<rparr>)"
  using assms
  by (auto simp: strategy_alternative_day_def Let_def model_copy_deep_def set_schedule_day_def
      split: sum.splits if_splits option.splits)

lemma strategy_relax_hours_frame:
  assumes "self_initial < length st"
    and "strategy_relax_hours self_initial st slots prefs = Inr (x, st')"
  shows "take (length st) st' = st
     \<and> (\<forall>r. x = Some r \<longrightarrow>
           proposed_schedule r = Some (length st) \<and> length st' = Suc (length st)
           \<and> st' ! length st
               = (st ! self_initial)\<lparr>working_hours_start := working_hours_start (st' ! length st),
                                      working_hours_end := working_hours_end (st' ! length st)\<rparr>)"
  using assms
  by (auto simp: strategy_relax_hours_def Let_def model_copy_deep_def set_working_hours_start_def
      set_working_hours_end_def split: sum.splits if_splits)

text \<open>
  C9. Let \<^verbatim>\<open>self.initial\<close> refer to a schedule of the store. Whatever a relaxation strategy
  returns, every schedule object that existed before the call is unchanged after it, the
  initial schedule among them. When the strategy returns a result, the proposed schedule
  is a new object (a reference that did not exist before, different from \<^verbatim>\<open>self.initial\<close>),
  and its fields are those of the initial schedule except \<^verbatim>\<open>default_duration\<close> for Duration
  Adjustment, \<^verbatim>\<open>schedule_day\<close> for Time-of-Day Shifting and for Alternative Day, and
  \<^verbatim>\<open>working_hours_start\<close> and \<^verbatim>\<open>working_hours_end\<close> for Relax Constraints.
\<close>

theorem strategies_copy_on_write:
  assumes "self_initial < length st"
  shows "(\<forall>x st'. strategy_duration_adjust self_initial st slots prefs = Inr (x, st') \<longrightarrow>
        take (length st) st' = st \<and> st' ! self_initial = st ! self_initial
        \<and> (\<forall>r. x = Some r \<longrightarrow>
              (\<exists>new_sched. proposed_schedule r = Some new_sched \<and> new_sched \<noteq> self_initial
                 \<and> new_sched = length st \<and> length st' = Suc (length st)
                 \<and> st' ! new_sched = (st ! self_initial)\<lparr>default_duration := default_duration (st' ! new_sched)\<rparr>)))
   \<and> (\<forall>x st'. strategy_time_shift self_initial st slots prefs = Inr (x, st') \<longrightarrow>
        take (length st) st' = st \<and> st' ! self_initial = st ! self_initial
        \<and> (\<forall>r. x = Some r \<longrightarrow>
              (\<exists>new_sched. proposed_schedule r = Some new_sched \<and> new_sched \<noteq> self_initial
                 \<and> new_sched = length st \<and> length st' = Suc (length st)
                 \<and> st' ! new_sched = (st ! self_initial)\<lparr>schedule_day := schedule_day (st' ! new_sched)\<rparr>)))
   \<and> (\<forall>x st'. strategy_alternative_day self_initial st slots prefs calendars = Inr (x, st') \<longrightarrow>
        take (length st) st' = st \<and> st' ! self_initial = st ! self_initial
        \<and> (\<forall>r. x = Some r \<longrightarrow>
              (\<exists>new_sched. proposed_schedule r = Some new_sched \<and> new_sched \<noteq> self_initial
                 \<and> new_sched = length st \<and> length st' = Suc (length st)
                 \<and> st' ! new_sched = (st ! self_initial)\<lparr>schedule_day := schedule_day (st' ! new_sched)\<rparr>)))
   \<and> (\<forall>x st'. strategy_relax_hours self_initial st slots prefs = Inr (x, st') \<longrightarrow>
        take (length st) st' = st \<and> st' ! self_initial = st ! self_initial
        \<and> (\<forall>r. x = Some r \<longrightarrow>
              (\<exists>new_sched. proposed_schedule r = Some new_sched \<and> new_sched \<noteq> self_initial
                 \<and> new_sched = length st \<and> length st' = Suc (length st)
                 \<and> st' ! new_sched = (st ! self_initial)\<lparr>working_hours_start := working_hours_start (st' ! new_sched),
                       working_hours_end := working_hours_end (st' ! new_sched)\<rparr>)))"
proof -
  have same: "st' ! self_initial = st ! self_initial" if "take (length st) st' = st" for st'
    using that assms by (metis nth_take)
  have new: "length st \<noteq> self_initial" using assms by simp
  have d: "(\<forall>x st'. strategy_duration_adjust self_initial st slots prefs = Inr (x, st') \<longrightarrow>
        take (length st) st' = st \<and> st' ! self_initial = st ! self_initial
        \<and> (\<forall>r. x = Some r \<longrightarrow>
              (\<exists>new_sched. proposed_schedule r = Some new_sched \<and> new_sched \<noteq> self_initial
                 \<and> new_sched = length st \<and> length st' = Suc (length st)
                 \<and> st' ! new_sched = (st ! self_initial)\<lparr>default_duration := default_duration (st' ! new_sched)\<rparr>)))"
    using strategy_duration_adjust_frame[OF assms] same new by blast
  have t: "(\<forall>x st'. strategy_time_shift self_initial st slots prefs = Inr (x, st') \<longrightarrow>
        take (length st) st' = st \<and> st' ! self_initial = st ! self_initial
        \<and> (\<forall>r. x = Some r \<longrightarrow>
              (\<exists>new_sched. proposed_schedule r = Some new_sched \<and> new_sched \<noteq> self_initial
                 \<and> new_sched = length st \<and> length st' = Suc (length st)
                 \<and> st' ! new_sched = (st ! self_initial)\<lparr>schedule_day := schedule_day (st' ! new_sched)\<rparr>)))"
    using strategy_time_shift_frame[OF assms] same new by blast
  have a: "(\<forall>x st'. strategy_alternative_day self_initial st slots prefs calendars = Inr (x, st') \<longrightarrow>
        take (length st) st' = st \<and> st' ! self_initial = st ! self_initial
        \<and> (\<forall>r. x = Some r \<longrightarrow>
              (\<exists>new_sched. proposed_schedule r = Some new_sched \<and> new_sched \<noteq> self_initial
                 \<and> new_sched = length st \<and> length st' = Suc (length st)
                 \<and> st' ! new_sched = (st ! self_initial)\<lparr>schedule_day := schedule_day (st' ! new_sched)\<rparr>)))"
    using strategy_alternative_day_frame[OF assms] same new by blast
  have r: "(\<forall>x st'. strategy_relax_hours self_initial st slots prefs = Inr (x, st') \<longrightarrow>
        take (length st) st' = st \<and> st' ! self_initial = st ! self_initial
        \<and> (\<forall>r. x = Some r \<longrightarrow>
              (\<exists>new_sched. proposed_schedule r = Some new_sched \<and> new_sched \<noteq> self_initial
                 \<and> new_sched = length st \<and> length st' = Suc (length st)
                 \<and> st' ! new_sched = (st ! self_initial)\<lparr>working_hours_start := working_hours_start (st' ! new_sched),
                       working_hours_end := working_hours_end (st' ! new_sched)\<rparr>)))"
    using strategy_relax_hours_frame[OF assms] same new by blast
  from d t a r show ?thesis by blast
qed

theorem strategies_copy_on_write_witness:
  "(0::nat) < length [example_schedule]
   \<and> strategy_relax_hours 0 [example_schedule]
        [slot_at (datetime_of monday 14 0) (datetime_of monday 15 0) 60 (7/10)]
        [(''alice'', no_preferences\<lparr>prefer_morning := Some True\<rparr>)]
      = Inr (Some \<lparr>outcome = COMPROMISE_PROPOSED, proposed_schedule = Some 1,
                   selected_slot = Some (slot_at (datetime_of monday 14 0) (datetime_of monday 15 0)
                                           60 (7/10)),
                   reasoning = Extended_working_hours, alternative_suggestions = [],
                   strategy_choose = RELAX_CONSTRAINTS\<rparr>,
             [example_schedule,
              example_schedule\<lparr>working_hours_start := time_of 7 30,
                                working_hours_end := time_of 18 30\<rparr>])
   \<and> [example_schedule,
       example_schedule\<lparr>working_hours_start := time_of 7 30,
                         working_hours_end := time_of 18 30\<rparr>] ! 0 = [example_schedule] ! 0"
proof -
  have h: "(0::nat) < length [example_schedule]" by simp
  have run: "strategy_relax_hours 0 [example_schedule]
        [slot_at (datetime_of monday 14 0) (datetime_of monday 15 0) 60 (7/10)]
        [(''alice'', no_preferences\<lparr>prefer_morning := Some True\<rparr>)]
      = Inr (Some \<lparr>outcome = COMPROMISE_PROPOSED, proposed_schedule = Some 1,
                   selected_slot = Some (slot_at (datetime_of monday 14 0) (datetime_of monday 15 0)
                                           60 (7/10)),
                   reasoning = Extended_working_hours, alternative_suggestions = [],
                   strategy_choose = RELAX_CONSTRAINTS\<rparr>,
             [example_schedule,
              example_schedule\<lparr>working_hours_start := time_of 7 30,
                                working_hours_end := time_of 18 30\<rparr>])"
    by (simp add: example_defs negotiation_defs)
  from strategies_copy_on_write[OF h] run
  have "[example_schedule,
       example_schedule\<lparr>working_hours_start := time_of 7 30,
                         working_hours_end := time_of 18 30\<rparr>] ! 0 = [example_schedule] ! 0"
    by blast
  with h run show ?thesis by blast
qed

section \<open>The candidate-slot generator\<close>

lemma outer_loop_returns_not_stuck:
  assumes "outer_loop m e d c s = Some y"
  shows "\<not> (c < e \<and> weekday c < 5 \<and> e < c + timedelta_minutes d)"
proof (rule outer_loop.raw_induct
    [where P = "\<lambda>m e d c s y. \<not> (c < e \<and> weekday c < 5 \<and> e < c + timedelta_minutes d)",
      OF _ assms])
  fix f :: "int \<Rightarrow> int \<Rightarrow> int \<Rightarrow> int \<Rightarrow> (int \<times> int) list \<Rightarrow> (int \<times> int) list option"
  fix m e d c s y
  assume ih: "\<And>m e d c s y. f m e d c s = Some y \<Longrightarrow>
                \<not> (c < e \<and> weekday c < 5 \<and> e < c + timedelta_minutes d)"
    and eq: "(if c < e
              then if weekday c < 5
                   then case inner_loop m e d c s of
                          None \<Rightarrow> None
                        | Some (c', s') \<Rightarrow> f m e d c' s'
                   else Some s
              else Some s) = Some y"
  show "\<not> (c < e \<and> weekday c < 5 \<and> e < c + timedelta_minutes d)"
  proof
    assume st: "c < e \<and> weekday c < 5 \<and> e < c + timedelta_minutes d"
    then have "inner_loop m e d c s = Some (c, s)"
      by (subst inner_loop.simps) simp
    with st eq have "f m e d c s = Some y" by simp
    from ih[OF this] st show False by blast
  qed
qed

lemma outer_loop_stuck:
  assumes "current_time < end_date" "weekday current_time < 5"
    "end_date < current_time + timedelta_minutes duration"
  shows "outer_loop min_slot_duration end_date duration current_time slots = None"
  using outer_loop_returns_not_stuck[of min_slot_duration end_date duration current_time slots]
    assms
  by (cases "outer_loop min_slot_duration end_date duration current_time slots") auto

text \<open>
  C2, at two inputs. An analyst with \<^verbatim>\<open>min_slot_duration = 60\<close> asked for slots of 30
  minutes between Monday 09:00 and 10:00 returns the slot 09:00 to 10:00: it ends at
  \<^verbatim>\<open>start + min_slot_duration\<close>, one hour after its start, not \<^verbatim>\<open>duration\<close> after it. Asked
  for slots of 60 minutes between Friday 23:00 and Saturday 01:00, it returns a slot that
  starts on Saturday at 00:00: the weekday is tested for the start date only.
\<close>

theorem generator_slot_end_and_weekend:
  "generate_time_slots 60 (datetime_of monday 9 0) (datetime_of monday 10 0) 30
     = Some [(datetime_of monday 9 0, datetime_of monday 10 0)]
   \<and> datetime_of monday 10 0 \<noteq> datetime_of monday 9 0 + timedelta_minutes 30
   \<and> generate_time_slots 60 (datetime_of (monday + 4) 23 0) (datetime_of (monday + 5) 1 0) 60
     = Some [(datetime_of (monday + 4) 23 0, datetime_of (monday + 5) 0 0),
             (datetime_of (monday + 5) 0 0, datetime_of (monday + 5) 1 0)]
   \<and> weekday (datetime_of (monday + 5) 0 0) = 5"
  by (simp add: generate_time_slots_def outer_loop.simps inner_loop.simps example_defs)

text \<open>
  C3, at one input. Asked for slots of 60 minutes between Monday 09:00 and 09:30, where
  the duration does not fit, the generator never returns: the inner loop ends at once,
  the outer loop finds \<^verbatim>\<open>current_time < end_date\<close> on a weekday again, and nothing moves
  \<^verbatim>\<open>current_time\<close>. The same holds for every start on a weekday that is before the end and
  less than \<^verbatim>\<open>duration\<close> before it (\<open>outer_loop_stuck\<close>).
\<close>

theorem generator_hangs_when_duration_does_not_fit:
  "generate_time_slots 30 (datetime_of monday 9 0) (datetime_of monday 9 30) 60 = None"
  unfolding generate_time_slots_def
  by (rule outer_loop_stuck) (simp_all add: example_defs)

section \<open>Time-of-day shifting reads the start time twice\<close>

text \<open>
  C6, at one input. Bob accepts no meeting after 17:00; the only slot runs from 16:30 to
  17:30. The gate of \<^verbatim>\<open>_strategy_time_shift\<close> compares the slot's start with the bound, so the
  strategy selects the slot; \<^verbatim>\<open>_strategy_relax_hours\<close>, which reads \<^verbatim>\<open>end_time\<close>, rejects it, as the
  strict filter does.
\<close>

theorem time_shift_accepts_slot_ending_after_bound:
  "strategy_time_shift 0 [example_schedule]
      [slot_at (datetime_of monday 16 30) (datetime_of monday 17 30) 60 (7/10)]
      [(''bob'', no_preferences\<lparr>no_meetings_after := Some (HH_MM 17 0)\<rparr>)]
    = Inr (Some \<lparr>outcome = COMPROMISE_PROPOSED, proposed_schedule = Some 1,
                 selected_slot = Some (slot_at (datetime_of monday 16 30) (datetime_of monday 17 30)
                                         60 (7/10)),
                 reasoning = Relaxed_time_of_day, alternative_suggestions = [],
                 strategy_choose = TOD_SHIFTING\<rparr>,
           [example_schedule, example_schedule\<lparr>schedule_day := datetime_of monday 16 30\<rparr>])
   \<and> strategy_relax_hours 0 [example_schedule]
      [slot_at (datetime_of monday 16 30) (datetime_of monday 17 30) 60 (7/10)]
      [(''bob'', no_preferences\<lparr>no_meetings_after := Some (HH_MM 17 0)\<rparr>)]
    = Inr (None, [example_schedule])
   \<and> slot_respects_all
         (slot_at (datetime_of monday 16 30) (datetime_of monday 17 30) 60 (7/10))
         [(''bob'', no_preferences\<lparr>no_meetings_after := Some (HH_MM 17 0)\<rparr>)] [] = Inr False"
  by (simp add: example_defs negotiation_defs)

section \<open>The fallback of the round controller\<close>

lemma fold_pick_mem:
  "fold (\<lambda>candidate best. if P candidate best then candidate else best) items item
     \<in> set (item # items)"
  by (induction items arbitrary: item) auto

lemma counter_items_keys: "map fst (counter_items xs) = rev (remdups (rev xs))"
  by (simp add: counter_items_def comp_def)

lemma counter_items_mem:
  assumes "p \<in> set (counter_items xs)"
  shows "fst p \<in> set xs"
proof -
  from assms have "fst p \<in> set (map fst (counter_items xs))" by (simp only: set_map) (rule imageI)
  then show ?thesis by (simp add: counter_items_keys)
qed

lemma counter_items_Nil: "counter_items xs = [] \<longleftrightarrow> xs = []"
proof
  assume "counter_items xs = []"
  then have "map fst (counter_items xs) = []" by simp
  then have "remdups (rev xs) = []" by (simp only: counter_items_keys rev_is_Nil_conv)
  then show "xs = []" by simp
next
  assume "xs = []"
  then show "counter_items xs = []" by (simp add: counter_items_def)
qed

lemma most_common_1_mem:
  assumes "xs \<noteq> []"
  shows "\<exists>m c. most_common_1 xs = [(m, c)] \<and> m \<in> set xs"
proof -
  have "counter_items xs \<noteq> []" using assms by (simp add: counter_items_Nil)
  then obtain item items where ci: "counter_items xs = item # items"
    by (cases "counter_items xs") auto
  define p where "p = fold (\<lambda>candidate best. if snd candidate > snd best then candidate else best)
             items item"
  have "p \<in> set (counter_items xs)" unfolding ci p_def by (rule fold_pick_mem)
  then have mem: "fst p \<in> set xs" by (rule counter_items_mem)
  have "most_common_1 xs = [p]" using ci by (simp add: p_def)
  then have "most_common_1 xs = [(fst p, snd p)]" by simp
  with mem show ?thesis by blast
qed

lemmas fallback_defs = collect_suggestions_def counter_items_def fallback_selection_def
  suggestion_x_def suggestion_y_def compromise_with_def

text \<open>
  C5 as stated fails. In the scenario of the claim the modal suggestion is X (suggested
  twice) and the suggestion of highest confidence is Y; the confidence of X, 0.55, does
  not exceed the confidence of Y, 0.9, and yet the fallback does not choose X.
\<close>

theorem fallback_modal_not_chosen:
  "foldl collect_suggestions []
      [compromise_with suggestion_x, compromise_with suggestion_y, compromise_with suggestion_x]
     = [suggestion_x, suggestion_y, suggestion_x]
   \<and> first_item (most_common_1 [suggestion_x, suggestion_y, suggestion_x]) = Inr (suggestion_x, 2)
   \<and> first_item (sort_by_confidence [suggestion_x, suggestion_y, suggestion_x]) = Inr suggestion_y
   \<and> confidence suggestion_x \<le> confidence suggestion_y
   \<and> fallback_selection False None [suggestion_x, suggestion_y, suggestion_x] \<noteq> Inr (Some suggestion_x)"
  by (simp add: fallback_defs example_defs sort_by_confidence_def)

text \<open>
  C5, amended. When no round produced an optimal outcome and at least one slot was
  suggested, the fallback computes the modal suggestion and the suggestion of highest
  confidence and chooses the modal one only if its confidence is strictly greater than
  that of the other, otherwise the suggestion of highest confidence. The confidence of
  the modal suggestion never is strictly greater, so the fallback always selects the
  suggestion of highest confidence, the first collected among equals. In the scenario
  (X twice at 0.55, Y once at 0.9) it selects Y.
\<close>

theorem fallback_selects_highest_confidence:
  assumes "all_suggestions \<noteq> []"
  shows "\<exists>most_common count highest_confidence.
       first_item (most_common_1 all_suggestions) = Inr (most_common, count)
     \<and> first_item (sort_by_confidence all_suggestions) = Inr highest_confidence
     \<and> fallback_selection False best_slot all_suggestions
         = Inr (Some (if confidence most_common > confidence highest_confidence
                      then most_common else highest_confidence))
     \<and> confidence most_common \<le> confidence highest_confidence
     \<and> fallback_selection False best_slot all_suggestions = Inr (Some highest_confidence)
     \<and> highest_confidence \<in> set all_suggestions
     \<and> (\<forall>s \<in> set all_suggestions. confidence s \<le> confidence highest_confidence)
     \<and> highest_confidence
         = hd (filter (\<lambda>s. confidence s = confidence highest_confidence) all_suggestions)"
proof -
  obtain m c where mc: "most_common_1 all_suggestions = [(m, c)]" and m: "m \<in> set all_suggestions"
    using most_common_1_mem[OF assms] by blast
  let ?h = "hd (sort_by_confidence all_suggestions)"
  have fh: "first_item (sort_by_confidence all_suggestions) = Inr ?h"
    using assms by (simp add: first_item_Inr_iff)
  have fm: "first_item (most_common_1 all_suggestions) = Inr (m, c)"
    unfolding mc by simp
  have le: "confidence m \<le> confidence ?h"
    using assms m by (rule hd_sort_by_confidence_max)
  have run: "fallback_selection False best_slot all_suggestions
         = Inr (Some (if confidence m > confidence ?h then m else ?h))"
    using assms fm fh by (simp add: fallback_selection_def del: most_common_1.simps)
  with le have run': "fallback_selection False best_slot all_suggestions = Inr (Some ?h)" by simp
  have mem: "?h \<in> set all_suggestions" using assms by (rule hd_sort_by_confidence_mem)
  have mx: "\<forall>s \<in> set all_suggestions. confidence s \<le> confidence ?h"
    using assms by (simp add: hd_sort_by_confidence_max)
  have first: "?h = hd (filter (\<lambda>s. confidence s = confidence ?h) all_suggestions)"
    using assms by (rule hd_sort_by_confidence_first)
  from fm fh run le run' mem mx first show ?thesis by blast
qed

theorem fallback_selects_highest_confidence_witness:
  "foldl collect_suggestions []
      [compromise_with suggestion_x, compromise_with suggestion_y, compromise_with suggestion_x]
     \<noteq> []
   \<and> fallback_selection False None (foldl collect_suggestions []
        [compromise_with suggestion_x, compromise_with suggestion_y, compromise_with suggestion_x])
     = Inr (Some suggestion_y)"
proof -
  let ?all = "foldl collect_suggestions []
      [compromise_with suggestion_x, compromise_with suggestion_y, compromise_with suggestion_x]"
  have eq: "?all = [suggestion_x, suggestion_y, suggestion_x]"
    by (simp add: fallback_defs)
  then have ne: "?all \<noteq> []" by simp
  from fallback_selects_highest_confidence[OF ne, of None]
  obtain h where h: "first_item (sort_by_confidence ?all) = Inr h"
    and run: "fallback_selection False None ?all = Inr (Some h)"
    by blast
  from h have "h = suggestion_y"
    unfolding eq by (simp add: fallback_defs example_defs sort_by_confidence_def)
  with run ne show ?thesis by simp
qed

section \<open>The soft score and the time bounds\<close>

lemma rule_no_meetings_before_fst:
  "fst (rule_no_meetings_before name prefs slot_start state)
     = fst state - (case no_meetings_before prefs of
                      None \<Rightarrow> 0
                    | Some b \<Rightarrow> if hour slot_start < split_hour b then 3/10 else 0)"
  by (cases state) (simp add: rule_no_meetings_before_def Let_def split: option.splits)

lemma rule_no_meetings_after_fst:
  "fst (rule_no_meetings_after name prefs slot_end state)
     = fst state - (case no_meetings_after prefs of
                      None \<Rightarrow> 0
                    | Some a \<Rightarrow> if hour slot_end > split_hour a then 3/10 else 0)"
  by (cases state) (simp add: rule_no_meetings_after_def Let_def split: option.splits)

lemma rule_prefer_morning_shift:
  "\<exists>d. \<forall>state. fst (rule_prefer_morning name prefs slot_start state) = fst state + d"
  by (rule exI[of _ "fst (rule_prefer_morning name prefs slot_start (0, []))"])
    (auto simp: rule_prefer_morning_def)

lemma rule_prefer_afternoon_shift:
  "\<exists>d. \<forall>state. fst (rule_prefer_afternoon name prefs slot_start state) = fst state + d"
  by (rule exI[of _ "fst (rule_prefer_afternoon name prefs slot_start (0, []))"])
    (auto simp: rule_prefer_afternoon_def)

lemma rule_avoid_lunch_time_shift:
  "\<exists>d. \<forall>state. fst (rule_avoid_lunch_time name prefs slot_start slot_end state) = fst state + d"
  by (rule exI[of _ "fst (rule_avoid_lunch_time name prefs slot_start slot_end (0, []))"])
    (auto simp: rule_avoid_lunch_time_def)

lemma rule_preferred_duration_shift:
  "\<exists>d. \<forall>state. fst (rule_preferred_duration name prefs duration state) = fst state + d"
  by (rule exI[of _ "fst (rule_preferred_duration name prefs duration (0, []))"])
    (auto simp: rule_preferred_duration_def)

lemma rule_meeting_count_shift:
  "\<exists>d. \<forall>state. fst (rule_meeting_count name prefs n state) = fst state + d"
  by (rule exI[of _ "fst (rule_meeting_count name prefs n (0, []))"])
    (auto simp: rule_meeting_count_def)

lemma rule_buffer_shift:
  "\<exists>d. \<forall>state. fst (rule_buffer name df slot_start slot_end state) = fst state + d"
  by (rule exI[of _ "fst (rule_buffer name df slot_start slot_end (0, []))"])
    (auto simp: rule_buffer_def Let_def)

lemma rule_calendar_shift:
  "\<exists>d. \<forall>state. fst (rule_calendar name prefs cal slot_start slot_end state) = fst state + d"
proof (cases cal)
  case None
  then have "\<forall>state. fst (rule_calendar name prefs cal slot_start slot_end state) = fst state + 0"
    by (simp add: rule_calendar_def)
  then show ?thesis by blast
next
  case (Some df)
  show ?thesis
  proof (cases "df = []")
    case True
    with Some
    have "\<forall>state. fst (rule_calendar name prefs cal slot_start slot_end state) = fst state + 0"
      by (simp add: rule_calendar_def)
    then show ?thesis by blast
  next
    case False
    obtain d1 where d1: "\<And>state. fst (rule_meeting_count name prefs
        (length (same_day_meetings df slot_start)) state) = fst state + d1"
      using rule_meeting_count_shift by blast
    obtain d2 where d2: "\<And>state. fst (rule_buffer name df slot_start slot_end state) = fst state + d2"
      using rule_buffer_shift by blast
    have "\<forall>state. fst (rule_calendar name prefs cal slot_start slot_end state)
            = fst state + (d1 + d2)"
      using Some False by (simp add: rule_calendar_def Let_def d1 d2)
    then show ?thesis by blast
  qed
qed

lemma general_time_assessment_fst:
  "fst (general_time_assessment slot_start state) = fst state"
  by (cases state) (simp add: general_time_assessment_def Let_def)

lemma score_tail_shift:
  "\<exists>d. \<forall>state.
     fst (general_time_assessment slot_start
           (rule_calendar name prefs cal slot_start slot_end
             (rule_preferred_duration name prefs duration
               (rule_avoid_lunch_time name prefs slot_start slot_end
                 (rule_prefer_afternoon name prefs slot_start
                   (rule_prefer_morning name prefs slot_start state)))))) = fst state + d"
proof -
  obtain d1 where d1: "\<And>state. fst (rule_prefer_morning name prefs slot_start state) = fst state + d1"
    using rule_prefer_morning_shift by blast
  obtain d2 where d2: "\<And>state. fst (rule_prefer_afternoon name prefs slot_start state) = fst state + d2"
    using rule_prefer_afternoon_shift by blast
  obtain d3 where d3: "\<And>state. fst (rule_avoid_lunch_time name prefs slot_start slot_end state)
                          = fst state + d3"
    using rule_avoid_lunch_time_shift by blast
  obtain d4 where d4: "\<And>state. fst (rule_preferred_duration name prefs duration state) = fst state + d4"
    using rule_preferred_duration_shift by blast
  obtain d5 where d5: "\<And>state. fst (rule_calendar name prefs cal slot_start slot_end state)
                          = fst state + d5"
    using rule_calendar_shift by blast
  have "\<forall>state.
     fst (general_time_assessment slot_start
           (rule_calendar name prefs cal slot_start slot_end
             (rule_preferred_duration name prefs duration
               (rule_avoid_lunch_time name prefs slot_start slot_end
                 (rule_prefer_afternoon name prefs slot_start
                   (rule_prefer_morning name prefs slot_start state))))))
       = fst state + (d1 + d2 + d3 + d4 + d5)"
    by (simp add: general_time_assessment_fst d1 d2 d3 d4 d5)
  then show ?thesis by blast
qed

lemma rule_meeting_count_ignores_bounds:
  "rule_meeting_count name (prefs\<lparr>no_meetings_before := x, no_meetings_after := y\<rparr>) n state
     = rule_meeting_count name prefs n state"
  by (cases state) (simp add: rule_meeting_count_def)

lemma rule_calendar_ignores_bounds:
  "rule_calendar name (prefs\<lparr>no_meetings_before := x, no_meetings_after := y\<rparr>) cal s e state
     = rule_calendar name prefs cal s e state"
  by (simp add: rule_calendar_def Let_def rule_meeting_count_ignores_bounds split: option.splits)

lemma rule_prefer_morning_ignores_bounds:
  "rule_prefer_morning name (prefs\<lparr>no_meetings_before := x, no_meetings_after := y\<rparr>) s state
     = rule_prefer_morning name prefs s state"
  by (cases state) (simp add: rule_prefer_morning_def)

lemma rule_prefer_afternoon_ignores_bounds:
  "rule_prefer_afternoon name (prefs\<lparr>no_meetings_before := x, no_meetings_after := y\<rparr>) s state
     = rule_prefer_afternoon name prefs s state"
  by (cases state) (simp add: rule_prefer_afternoon_def)

lemma rule_avoid_lunch_time_ignores_bounds:
  "rule_avoid_lunch_time name (prefs\<lparr>no_meetings_before := x, no_meetings_after := y\<rparr>) s e state
     = rule_avoid_lunch_time name prefs s e state"
  by (cases state) (simp add: rule_avoid_lunch_time_def)

lemma rule_preferred_duration_ignores_bounds:
  "rule_preferred_duration name (prefs\<lparr>no_meetings_before := x, no_meetings_after := y\<rparr>) dur state
     = rule_preferred_duration name prefs dur state"
  by (cases state) (simp add: rule_preferred_duration_def)

lemmas rules_ignore_bounds = rule_calendar_ignores_bounds rule_prefer_morning_ignores_bounds
  rule_prefer_afternoon_ignores_bounds rule_avoid_lunch_time_ignores_bounds
  rule_preferred_duration_ignores_bounds

lemma score_before_clamp_bounds:
  "\<exists>d. \<forall>x y.
     fst (score_before_clamp slot_start slot_end duration name
            (pd\<lparr>preferences := (preferences pd)\<lparr>no_meetings_before := x,
                                                   no_meetings_after := y\<rparr>\<rparr>))
       = 1/2
         - (case x of None \<Rightarrow> 0
            | Some b \<Rightarrow> if hour slot_start < split_hour b then 3/10 else 0)
         - (case y of None \<Rightarrow> 0
            | Some a \<Rightarrow> if hour slot_end > split_hour a then 3/10 else 0)
         + d"
proof -
  obtain d where d: "\<And>state.
     fst (general_time_assessment slot_start
           (rule_calendar name (preferences pd) (calendar pd) slot_start slot_end
             (rule_preferred_duration name (preferences pd) duration
               (rule_avoid_lunch_time name (preferences pd) slot_start slot_end
                 (rule_prefer_afternoon name (preferences pd) slot_start
                   (rule_prefer_morning name (preferences pd) slot_start state))))))
       = fst state + d"
    using score_tail_shift by blast
  have "fst (score_before_clamp slot_start slot_end duration name
            (pd\<lparr>preferences := (preferences pd)\<lparr>no_meetings_before := x,
                                                   no_meetings_after := y\<rparr>\<rparr>))
       = 1/2
         - (case x of None \<Rightarrow> 0
            | Some b \<Rightarrow> if hour slot_start < split_hour b then 3/10 else 0)
         - (case y of None \<Rightarrow> 0
            | Some a \<Rightarrow> if hour slot_end > split_hour a then 3/10 else 0)
         + d" for x y
    by (simp add: score_before_clamp_def Let_def rules_ignore_bounds d
        rule_no_meetings_after_fst rule_no_meetings_before_fst)
  then show ?thesis by blast
qed

lemmas score_defs = score_before_clamp_def calculate_slot_score_with_notes_def
  rule_no_meetings_before_def rule_no_meetings_after_def rule_prefer_morning_def
  rule_prefer_afternoon_def rule_avoid_lunch_time_def rule_preferred_duration_def
  rule_calendar_def rule_meeting_count_def rule_buffer_def general_time_assessment_def
  same_day_meetings_def close_meetings_def

text \<open>
  C10. In the soft score the two time bounds are compared by the hour only. For a
  participant with \<^verbatim>\<open>no_meetings_before\<close> set, the score before the clamp is the score the
  same participant would get without the bound, less 0.3 exactly when
  \<^verbatim>\<open>slot_start.hour\<close> is below the hour of the bound; with \<^verbatim>\<open>no_meetings_after\<close> set, less 0.3
  exactly when \<^verbatim>\<open>slot_end.hour\<close> is above the hour of the bound; and a bound with the same
  hour and other minutes gives the same score. The strict filter compares the whole
  times: with the bound 10:30 the slot from 10:00 to 10:30 gets no penalty in the soft
  score, the strict filter rejects it, and without the bound the strict filter accepts
  it.
\<close>

theorem soft_score_compares_hours_only:
  "(no_meetings_before (preferences pd) = Some b \<longrightarrow>
      fst (score_before_clamp slot_start slot_end duration name pd)
        = fst (score_before_clamp slot_start slot_end duration name
                 (pd\<lparr>preferences := (preferences pd)\<lparr>no_meetings_before := None\<rparr>\<rparr>))
          - (if hour slot_start < split_hour b then 3/10 else 0))
   \<and> (no_meetings_after (preferences pd) = Some a \<longrightarrow>
      fst (score_before_clamp slot_start slot_end duration name pd)
        = fst (score_before_clamp slot_start slot_end duration name
                 (pd\<lparr>preferences := (preferences pd)\<lparr>no_meetings_after := None\<rparr>\<rparr>))
          - (if hour slot_end > split_hour a then 3/10 else 0))
   \<and> (no_meetings_before (preferences pd) = Some b \<and> split_hour b' = split_hour b \<longrightarrow>
      fst (score_before_clamp slot_start slot_end duration name
             (pd\<lparr>preferences := (preferences pd)\<lparr>no_meetings_before := Some b'\<rparr>\<rparr>))
        = fst (score_before_clamp slot_start slot_end duration name pd))
   \<and> (no_meetings_after (preferences pd) = Some a \<and> split_hour a' = split_hour a \<longrightarrow>
      fst (score_before_clamp slot_start slot_end duration name
             (pd\<lparr>preferences := (preferences pd)\<lparr>no_meetings_after := Some a'\<rparr>\<rparr>))
        = fst (score_before_clamp slot_start slot_end duration name pd))
   \<and> fst (score_before_clamp (datetime_of monday 10 0) (datetime_of monday 10 30) 30 ''carol''
            \<lparr>preferences = no_preferences\<lparr>no_meetings_before := Some (HH_MM 10 30)\<rparr>,
             calendar = None\<rparr>)
       = fst (score_before_clamp (datetime_of monday 10 0) (datetime_of monday 10 30) 30 ''carol''
            \<lparr>preferences = no_preferences, calendar = None\<rparr>)
   \<and> slot_respects_all
           (slot_at (datetime_of monday 10 0) (datetime_of monday 10 30) 30 (1/2))
           [(''carol'', no_preferences\<lparr>no_meetings_before := Some (HH_MM 10 30)\<rparr>)] []
       = Inr False
   \<and> slot_respects_all
           (slot_at (datetime_of monday 10 0) (datetime_of monday 10 30) 30 (1/2))
           [(''carol'', no_preferences)] [] = Inr True"
proof -
  let ?p = "preferences pd"
  obtain d where d: "\<And>x y.
     fst (score_before_clamp slot_start slot_end duration name
            (pd\<lparr>preferences := ?p\<lparr>no_meetings_before := x, no_meetings_after := y\<rparr>\<rparr>))
       = 1/2
         - (case x of None \<Rightarrow> 0
            | Some b \<Rightarrow> if hour slot_start < split_hour b then 3/10 else 0)
         - (case y of None \<Rightarrow> 0
            | Some a \<Rightarrow> if hour slot_end > split_hour a then 3/10 else 0)
         + d"
    using score_before_clamp_bounds by blast
  have same: "pd\<lparr>preferences := ?p\<lparr>no_meetings_before := no_meetings_before ?p,
                                       no_meetings_after := no_meetings_after ?p\<rparr>\<rparr> = pd"
    by simp
  have upd_b: "pd\<lparr>preferences := ?p\<lparr>no_meetings_before := x,
                                        no_meetings_after := no_meetings_after ?p\<rparr>\<rparr>
               = pd\<lparr>preferences := ?p\<lparr>no_meetings_before := x\<rparr>\<rparr>" for x
    by simp
  have upd_a: "pd\<lparr>preferences := ?p\<lparr>no_meetings_before := no_meetings_before ?p,
                                        no_meetings_after := y\<rparr>\<rparr>
               = pd\<lparr>preferences := ?p\<lparr>no_meetings_after := y\<rparr>\<rparr>" for y
    by simp
  have cur: "fst (score_before_clamp slot_start slot_end duration name pd)
       = 1/2
         - (case no_meetings_before ?p of None \<Rightarrow> 0
            | Some b \<Rightarrow> if hour slot_start < split_hour b then 3/10 else 0)
         - (case no_meetings_after ?p of None \<Rightarrow> 0
            | Some a \<Rightarrow> if hour slot_end > split_hour a then 3/10 else 0)
         + d"
    using d[where x = "no_meetings_before ?p" and y = "no_meetings_after ?p"] by (simp only: same)
  have with_b: "fst (score_before_clamp slot_start slot_end duration name
                      (pd\<lparr>preferences := ?p\<lparr>no_meetings_before := x\<rparr>\<rparr>))
       = 1/2
         - (case x of None \<Rightarrow> 0
            | Some b \<Rightarrow> if hour slot_start < split_hour b then 3/10 else 0)
         - (case no_meetings_after ?p of None \<Rightarrow> 0
            | Some a \<Rightarrow> if hour slot_end > split_hour a then 3/10 else 0)
         + d" for x
    using d[where x = x and y = "no_meetings_after ?p"] by (simp only: upd_b)
  have with_a: "fst (score_before_clamp slot_start slot_end duration name
                      (pd\<lparr>preferences := ?p\<lparr>no_meetings_after := y\<rparr>\<rparr>))
       = 1/2
         - (case no_meetings_before ?p of None \<Rightarrow> 0
            | Some b \<Rightarrow> if hour slot_start < split_hour b then 3/10 else 0)
         - (case y of None \<Rightarrow> 0
            | Some a \<Rightarrow> if hour slot_end > split_hour a then 3/10 else 0)
         + d" for y
    using d[where x = "no_meetings_before ?p" and y = y] by (simp only: upd_a)
  have c1: "no_meetings_before ?p = Some b \<longrightarrow>
      fst (score_before_clamp slot_start slot_end duration name pd)
        = fst (score_before_clamp slot_start slot_end duration name
                 (pd\<lparr>preferences := ?p\<lparr>no_meetings_before := None\<rparr>\<rparr>))
          - (if hour slot_start < split_hour b then 3/10 else 0)"
    by (simp add: cur with_b)
  have c2: "no_meetings_after ?p = Some a \<longrightarrow>
      fst (score_before_clamp slot_start slot_end duration name pd)
        = fst (score_before_clamp slot_start slot_end duration name
                 (pd\<lparr>preferences := ?p\<lparr>no_meetings_after := None\<rparr>\<rparr>))
          - (if hour slot_end > split_hour a then 3/10 else 0)"
    by (simp add: cur with_a)
  have c3: "no_meetings_before ?p = Some b \<and> split_hour b' = split_hour b \<longrightarrow>
      fst (score_before_clamp slot_start slot_end duration name
             (pd\<lparr>preferences := ?p\<lparr>no_meetings_before := Some b'\<rparr>\<rparr>))
        = fst (score_before_clamp slot_start slot_end duration name pd)"
    by (simp add: cur with_b)
  have c4: "no_meetings_after ?p = Some a \<and> split_hour a' = split_hour a \<longrightarrow>
      fst (score_before_clamp slot_start slot_end duration name
             (pd\<lparr>preferences := ?p\<lparr>no_meetings_after := Some a'\<rparr>\<rparr>))
        = fst (score_before_clamp slot_start slot_end duration name pd)"
    by (simp add: cur with_a)
  have c5: "fst (score_before_clamp (datetime_of monday 10 0) (datetime_of monday 10 30) 30 ''carol''
            \<lparr>preferences = no_preferences\<lparr>no_meetings_before := Some (HH_MM 10 30)\<rparr>,
             calendar = None\<rparr>)
       = fst (score_before_clamp (datetime_of monday 10 0) (datetime_of monday 10 30) 30 ''carol''
            \<lparr>preferences = no_preferences, calendar = None\<rparr>)"
    by (simp add: score_defs example_defs)
  have c6: "slot_respects_all
           (slot_at (datetime_of monday 10 0) (datetime_of monday 10 30) 30 (1/2))
           [(''carol'', no_preferences\<lparr>no_meetings_before := Some (HH_MM 10 30)\<rparr>)] []
       = Inr False"
    by (simp add: example_defs negotiation_defs)
  have c7: "slot_respects_all
           (slot_at (datetime_of monday 10 0) (datetime_of monday 10 30) 30 (1/2))
           [(''carol'', no_preferences)] [] = Inr True"
    by (simp add: example_defs negotiation_defs)
  from c1 c2 c3 c4 c5 c6 c7 show ?thesis by blast
qed

theorem soft_score_compares_hours_only_witness:
  "no_meetings_before (preferences
       \<lparr>preferences = no_preferences\<lparr>no_meetings_before := Some (HH_MM 10 30)\<rparr>,
        calendar = None\<rparr>) = Some (HH_MM 10 30)
   \<and> hour (datetime_of monday 9 15) < split_hour (HH_MM 10 30)
   \<and> fst (score_before_clamp (datetime_of monday 9 15) (datetime_of monday 10 15) 60 ''carol''
            \<lparr>preferences = no_preferences\<lparr>no_meetings_before := Some (HH_MM 10 30)\<rparr>,
             calendar = None\<rparr>) = 1/5
   \<and> calculate_slot_score_with_notes (datetime_of monday 9 15) (datetime_of monday 10 15) 60
        ''carol''
        \<lparr>preferences = no_preferences\<lparr>no_meetings_before := Some (HH_MM 10 30)\<rparr>,
         calendar = None\<rparr>
       = (1/5, [Starts_before_bound ''carol'' 9 (HH_MM 10 30), Early_morning, Poor_fit])"
proof -
  let ?pd = "\<lparr>preferences = no_preferences\<lparr>no_meetings_before := Some (HH_MM 10 30)\<rparr>,
             calendar = None\<rparr>"
  have h: "no_meetings_before (preferences ?pd) = Some (HH_MM 10 30)"
    by (simp add: example_defs)
  have lt: "hour (datetime_of monday 9 15) < split_hour (HH_MM 10 30)"
    by (simp add: example_defs)
  have without: "fst (score_before_clamp (datetime_of monday 9 15) (datetime_of monday 10 15) 60
                   ''carol'' (?pd\<lparr>preferences := (preferences ?pd)\<lparr>no_meetings_before := None\<rparr>\<rparr>))
                 = 1/2"
    by (simp add: score_defs example_defs)
  from soft_score_compares_hours_only
    [of ?pd "HH_MM 10 30" "datetime_of monday 9 15" "datetime_of monday 10 15" 60 "''carol''"]
    h lt without
  have s: "fst (score_before_clamp (datetime_of monday 9 15) (datetime_of monday 10 15) 60 ''carol''
            ?pd) = 1/5"
    by simp
  have full: "calculate_slot_score_with_notes (datetime_of monday 9 15) (datetime_of monday 10 15) 60
        ''carol'' ?pd
       = (1/5, [Starts_before_bound ''carol'' 9 (HH_MM 10 30), Early_morning, Poor_fit])"
    by (simp add: score_defs example_defs)
  from h lt s full show ?thesis by blast
qed

end
